theory Spec2Isabelle
  imports Main "HOL-Library.Word"
begin

section \<open>Go values\<close>

text \<open>
  Go's \<open>int\<close> has the width of the target, 32 or 64 bits; the development fixes the
  64 bits of the usual targets (amd64, arm64). Addition wraps around, as the language
  defines it; \<open>sint\<close> reads the value.
\<close>

type_synonym go_int = "64 word"

definition MaxInt :: go_int where
  "MaxInt = 9223372036854775807"

text \<open>\<open>time.Duration\<close>: an int64 count of nanoseconds.\<close>

type_synonym Duration = "64 word"

definition Second :: Duration where
  "Second = 1000000000"

definition Minute :: Duration where
  "Minute = 60 * Second"

section \<open>The data of \<open>main.go\<close>\<close>

text \<open>\<open>type State struct { Count int }\<close>\<close>

record State =
  Count :: go_int

text \<open>
  The anonymous \<open>cfg\<close> struct of \<open>run\<close> (without the embedded \<open>conf.Version\<close>), and the
  defaults of its \<open>conf\<close> tags.
\<close>

record Config =
  Port :: go_int
  Host :: string
  HealthPath :: string
  VersionPath :: string
  ReadTimeout :: Duration
  WriteTimeout :: Duration
  IdleTimeout :: Duration
  ShutdownTimeout :: Duration

definition default_cfg :: Config where
  "default_cfg =
     \<lparr>Port = 8080, Host = ''127.0.0.1'', HealthPath = ''/healthz'',
      VersionPath = ''/version'', ReadTimeout = 5 * Second, WriteTimeout = 10 * Second,
      IdleTimeout = 120 * Second, ShutdownTimeout = 5 * Second\<rparr>"

section \<open>Requests and responses of \<open>net/http\<close>\<close>

text \<open>
  \<open>url.Values\<close> (a \<open>map[string][]string\<close>) is kept as the list of its key/value pairs:
  the values of a key are the pairs with that key, in order. \<open>Has\<close> is the presence
  of the key; \<open>copyValues\<close> adds every pair of the source to the destination.
\<close>

type_synonym Values = "(string \<times> string) list"

definition Has :: "Values \<Rightarrow> string \<Rightarrow> bool" where
  "Has v k = (k \<in> fst ` set v)"

definition copyValues :: "Values \<Rightarrow> Values \<Rightarrow> Values" where
  "copyValues dst src = dst @ src"

text \<open>
  A request as the handlers see it. \<open>URL_Query\<close> is what \<open>url.ParseQuery\<close> returns for
  \<open>r.URL.RawQuery\<close> and \<open>Body_Form\<close> what \<open>net/http\<close> parses from the body of a POST, PUT or
  PATCH request (empty for a missing body or another content type, partial for a
  malformed one), each with its error. \<open>Session\<close> names the session that the session
  middleware loads for the request from its cookie.
\<close>

record Request =
  Method :: string
  RequestURI :: string
  ReqHost :: string
  URL_Host :: string
  URL_Path :: string
  URL_Query :: Values
  URL_QueryErr :: bool
  Body_Form :: Values
  Body_FormErr :: bool
  Session :: string

text \<open>
  A response: the status, the \<open>Content-Type\<close> header when the handler sets it (otherwise
  \<open>net/http\<close> derives it from the body) and the bytes written. A handler that writes
  without \<open>WriteHeader\<close> answers 200.
\<close>

record Response =
  Status :: nat
  ContentType :: "string option"
  Body :: string

definition StatusOK :: nat where
  "StatusOK = 200"

definition StatusMovedPermanently :: nat where
  "StatusMovedPermanently = 301"

definition StatusBadRequest :: nat where
  "StatusBadRequest = 400"

definition StatusNotFound :: nat where
  "StatusNotFound = 404"

definition StatusMethodNotAllowed :: nat where
  "StatusMethodNotAllowed = 405"

text \<open>\<open>http.StatusText\<close>, on the codes this server answers with.\<close>

definition StatusText :: "nat \<Rightarrow> string" where
  "StatusText code =
     (if code = 200 then ''OK''
      else if code = 301 then ''Moved Permanently''
      else if code = 400 then ''Bad Request''
      else if code = 404 then ''Not Found''
      else if code = 405 then ''Method Not Allowed''
      else [])"

text \<open>
  \<open>http.Error\<close>: a plain-text reply with the given code; the message is written with
  \<open>Fprintln\<close>, so a newline follows it.
\<close>

definition Error :: "string \<Rightarrow> nat \<Rightarrow> Response" where
  "Error msg code =
     \<lparr>Status = code, ContentType = Some ''text/plain; charset=utf-8'',
      Body = msg @ [CHR 0x0A]\<rparr>"

text \<open>
  \<open>r.ParseForm()\<close>: the body's form (for POST, PUT and PATCH) followed by the values of
  the URL query, with the first error met. The values are there also when there is an
  error.
\<close>

definition ParseForm :: "Request \<Rightarrow> Values \<times> bool" where
  "ParseForm r =
     (let (PostForm, err) =
            (if Method r = ''POST'' \<or> Method r = ''PUT'' \<or> Method r = ''PATCH''
             then (Body_Form r, Body_FormErr r) else ([], False));
          newValues = URL_Query r;
          err = (err \<or> URL_QueryErr r)
      in if PostForm \<noteq> [] then (copyValues (copyValues [] PostForm) newValues, err)
         else (newValues, err))"

section \<open>The session manager\<close>

text \<open>
  \<open>scs\<close> keeps, for each session, the values stored under string keys. Only the root
  handler stores something, an int under \<open>key\<close>, so the values are ints. \<open>GetInt\<close> is
  the zero value for a key that is not there.
\<close>

type_synonym SessionData = "string \<rightharpoonup> go_int"

definition GetInt :: "SessionData \<Rightarrow> string \<Rightarrow> go_int" where
  "GetInt sd k = (case sd k of None \<Rightarrow> 0 | Some v \<Rightarrow> v)"

definition Put :: "SessionData \<Rightarrow> string \<Rightarrow> go_int \<Rightarrow> SessionData" where
  "Put sd k v = sd(k \<mapsto> v)"

section \<open>What is outside \<open>main.go\<close>\<close>

text \<open>
  The templ component \<open>page\<close> and the handler \<open>VersionInfo\<close> are files of the repository
  that are not at hand; the file server over the embedded assets, the reply of
  \<open>http.Redirect\<close> and \<open>stripHostPort\<close> belong to \<open>net/http\<close>. They are parameters.
  \<open>page g u\<close> is the text that rendering \<open>page(g, u)\<close> writes. Neither \<open>VersionInfo\<close> nor
  the file server can reach \<open>global\<close> or \<open>sessionManager\<close>, which are local to \<open>run\<close>, so
  they map a request to a response.
\<close>

record Env =
  page :: "go_int \<Rightarrow> go_int \<Rightarrow> string"
  VersionInfo :: "Request \<Rightarrow> Response"
  FileServer :: "Request \<Rightarrow> Response"
  Redirect :: "string \<Rightarrow> nat \<Rightarrow> Request \<Rightarrow> Response"
  stripHostPort :: "string \<Rightarrow> string"

section \<open>The handlers\<close>

text \<open>\<open>func healthz(w http.ResponseWriter, _ *http.Request)\<close>\<close>

definition healthz :: "Request \<Rightarrow> Response" where
  "healthz r = \<lparr>Status = StatusOK, ContentType = None, Body = ''ok''\<rparr>"

definition key :: string where
  "key = ''count''"

text \<open>
  The root handler, the closure registered on \<open>"/"\<close>. It works on the variable \<open>global\<close>
  of \<open>run\<close> and on the session data of the request. Its log record is left out.
\<close>

definition root :: "Env \<Rightarrow> Request \<Rightarrow> State \<times> SessionData \<Rightarrow> (State \<times> SessionData) \<times> Response" where
  "root env r = (\<lambda>(global, sd).
     if Method r = ''GET'' then
       (let userCount = GetInt sd key
        in ((global, sd),
            \<lparr>Status = StatusOK, ContentType = None,
             Body = page env (Count global) userCount\<rparr>))
     else if Method r = ''POST'' then
       (let (Form, _) = ParseForm r;
            global = (if Has Form ''global'' then global\<lparr>Count := Count global + 1\<rparr>
                      else global);
            sd = (if Has Form ''user''
                  then (let currentCount = GetInt sd key in Put sd key (currentCount + 1))
                  else sd);
            userCount = GetInt sd key
        in ((global, sd),
            \<lparr>Status = StatusOK, ContentType = None,
             Body = page env (Count global) userCount\<rparr>))
     else ((global, sd), Error (StatusText StatusMethodNotAllowed) StatusMethodNotAllowed))"

section \<open>The server state and the session middleware\<close>

text \<open>
  The state that outlives a request: the variable \<open>global\<close> and the session store.
  \<open>LoadAndSave\<close> loads the data of the request's session, runs the handler on it and
  saves what the handler left.
\<close>

record Server =
  global :: State
  sessions :: "string \<Rightarrow> SessionData"

definition initial :: Server where
  "initial = \<lparr>global = \<lparr>Count = 0\<rparr>, sessions = (\<lambda>_. Map.empty)\<rparr>"

definition LoadAndSave ::
  "(Request \<Rightarrow> State \<times> SessionData \<Rightarrow> (State \<times> SessionData) \<times> Response)
   \<Rightarrow> Request \<Rightarrow> Server \<Rightarrow> Server \<times> Response" where
  "LoadAndSave next r srv =
     (let ((g, sd), resp) = next r (global srv, sessions srv (Session r))
      in (\<lparr>global = g, sessions = (sessions srv)(Session r := sd)\<rparr>, resp))"

definition userCount :: "Server \<Rightarrow> string \<Rightarrow> go_int" where
  "userCount srv sid = GetInt (sessions srv sid) key"

section \<open>\<open>http.ServeMux\<close> as of Go 1.21\<close>

text \<open>
  The module is at \<open>go 1.21.1\<close>, so the router is the one of that release: fixed
  patterns and rooted subtrees (patterns that end in a slash), the longest match
  wins, non-canonical paths and subtree roots without their slash are redirected.
  What a pattern is registered to is named by a value of \<open>Handler\<close>.
\<close>

datatype Handler =
  VersionInfoH | healthzH | assetsH | rootH | RedirectHandler string nat | NotFoundHandler

record ServeMux =
  m :: "string \<rightharpoonup> Handler"
  es :: "(string \<times> Handler) list"
  hosts :: bool

definition NewServeMux :: ServeMux where
  "NewServeMux = \<lparr>m = Map.empty, es = [], hosts = False\<rparr>"

definition HasPrefix :: "string \<Rightarrow> string \<Rightarrow> bool" where
  "HasPrefix s p = (take (length p) s = p)"

text \<open>\<open>appendSorted\<close> keeps \<open>es\<close> ordered from the longest pattern to the shortest.\<close>

fun appendSorted :: "(string \<times> Handler) list \<Rightarrow> string \<times> Handler \<Rightarrow> (string \<times> Handler) list" where
  "appendSorted [] e = [e]"
| "appendSorted (x # xs) e =
     (if length (fst x) < length (fst e) then e # x # xs else x # appendSorted xs e)"

text \<open>
  \<open>mux.Handle\<close> panics on an empty pattern and on a pattern registered before:
  \<open>None\<close> is the panic.
\<close>

definition Handle :: "ServeMux \<Rightarrow> string \<Rightarrow> Handler \<Rightarrow> ServeMux option" where
  "Handle mux pattern h =
     (if pattern = [] then None
      else if m mux pattern \<noteq> None then None
      else Some \<lparr>m = (m mux)(pattern \<mapsto> h),
                 es = (if last pattern = CHR ''/'' then appendSorted (es mux) (pattern, h)
                       else es mux),
                 hosts = (hosts mux \<or> hd pattern \<noteq> CHR ''/'')\<rparr>)"

fun match_es :: "(string \<times> Handler) list \<Rightarrow> string \<Rightarrow> (Handler \<times> string) option" where
  "match_es [] path = None"
| "match_es ((pattern, h) # rest) path =
     (if HasPrefix path pattern then Some (h, pattern) else match_es rest path)"

definition mux_match :: "ServeMux \<Rightarrow> string \<Rightarrow> (Handler \<times> string) option" where
  "mux_match mux path =
     (case m mux path of Some h \<Rightarrow> Some (h, path) | None \<Rightarrow> match_es (es mux) path)"

definition handler :: "ServeMux \<Rightarrow> string \<Rightarrow> string \<Rightarrow> Handler \<times> string" where
  "handler mux host path =
     (let h = (if hosts mux then mux_match mux (host @ path) else None);
          h = (case h of None \<Rightarrow> mux_match mux path | Some x \<Rightarrow> Some x)
      in case h of None \<Rightarrow> (NotFoundHandler, []) | Some x \<Rightarrow> x)"

definition shouldRedirectRLocked :: "ServeMux \<Rightarrow> string \<Rightarrow> string \<Rightarrow> bool" where
  "shouldRedirectRLocked mux host path =
     (if m mux path \<noteq> None \<or> m mux (host @ path) \<noteq> None then False
      else if path = [] then False
      else if m mux (path @ ''/'') \<noteq> None then last path \<noteq> CHR ''/''
      else if m mux (host @ path @ ''/'') \<noteq> None then last path \<noteq> CHR ''/''
      else False)"

subsection \<open>\<open>path.Clean\<close> and \<open>cleanPath\<close>\<close>

text \<open>
  \<open>path.Clean\<close> by its rules: the path is cut at the slashes; empty elements and
  \<open>.\<close> are dropped; \<open>..\<close> removes the element before it, is dropped at the root
  and stays at the start of a path that is not rooted. The empty result is \<open>.\<close>.
\<close>

fun split_slash :: "string \<Rightarrow> string list" where
  "split_slash [] = [[]]"
| "split_slash (c # cs) =
     (if c = CHR ''/'' then [] # split_slash cs
      else (case split_slash cs of [] \<Rightarrow> [[c]] | x # xs \<Rightarrow> (c # x) # xs))"

fun join_slash :: "string list \<Rightarrow> string" where
  "join_slash [] = []"
| "join_slash [x] = x"
| "join_slash (x # y # ys) = x @ ''/'' @ join_slash (y # ys)"

fun clean_elems :: "bool \<Rightarrow> string list \<Rightarrow> string list \<Rightarrow> string list" where
  "clean_elems rooted [] out = rev out"
| "clean_elems rooted (e # rest) out =
     (if e = [] \<or> e = ''.'' then clean_elems rooted rest out
      else if e = ''..'' then
        (case out of
           [] \<Rightarrow> if rooted then clean_elems rooted rest [] else clean_elems rooted rest [e]
         | t # ts \<Rightarrow> if t = ''..'' then clean_elems rooted rest (e # out)
                     else clean_elems rooted rest ts)
      else clean_elems rooted rest (e # out))"

definition Clean :: "string \<Rightarrow> string" where
  "Clean p =
     (if p = [] then ''.''
      else (let rooted = (hd p = CHR ''/'');
                out = (if rooted then ''/'' else []) @ join_slash (clean_elems rooted (split_slash p) [])
            in if out = [] then ''.'' else out))"

definition cleanPath :: "string \<Rightarrow> string" where
  "cleanPath p =
     (if p = [] then ''/''
      else (let p = (if hd p \<noteq> CHR ''/'' then ''/'' @ p else p);
                np = Clean p
            in if last p = CHR ''/'' \<and> np \<noteq> ''/''
               then (if length p = length np + 1 \<and> HasPrefix p np then p else np @ ''/'')
               else np))"

subsection \<open>Dispatch\<close>

text \<open>
  \<open>mux.Handler\<close>: the handler for a request and the pattern it matched. A redirect
  goes to the given path (the raw query of the request is appended to it by the
  router).
\<close>

definition mux_Handler :: "Env \<Rightarrow> ServeMux \<Rightarrow> Request \<Rightarrow> Handler \<times> string" where
  "mux_Handler env mux r =
     (if Method r = ''CONNECT'' then
        (if shouldRedirectRLocked mux (URL_Host r) (URL_Path r)
         then (RedirectHandler (URL_Path r @ ''/'') StatusMovedPermanently, URL_Path r @ ''/'')
         else handler mux (ReqHost r) (URL_Path r))
      else
        (let host = stripHostPort env (ReqHost r);
             path = cleanPath (URL_Path r)
         in if shouldRedirectRLocked mux host path
            then (RedirectHandler (path @ ''/'') StatusMovedPermanently, path @ ''/'')
            else if path \<noteq> URL_Path r
            then (RedirectHandler path StatusMovedPermanently, snd (handler mux host path))
            else handler mux host (URL_Path r)))"

text \<open>What each registered handler does with the request.\<close>

fun ServeHTTP ::
  "Env \<Rightarrow> Handler \<Rightarrow> Request \<Rightarrow> State \<times> SessionData \<Rightarrow> (State \<times> SessionData) \<times> Response" where
  "ServeHTTP env rootH r c = root env r c"
| "ServeHTTP env healthzH r c = (c, healthz r)"
| "ServeHTTP env VersionInfoH r c = (c, VersionInfo env r)"
| "ServeHTTP env assetsH r c = (c, FileServer env r)"
| "ServeHTTP env (RedirectHandler url code) r c = (c, Redirect env url code r)"
| "ServeHTTP env NotFoundHandler r c = (c, Error ''404 page not found'' StatusNotFound)"

text \<open>\<open>mux.ServeHTTP\<close>: the request target \<open>*\<close> is a bad request.\<close>

definition ServeMux_ServeHTTP ::
  "Env \<Rightarrow> ServeMux \<Rightarrow> Request \<Rightarrow> State \<times> SessionData \<Rightarrow> (State \<times> SessionData) \<times> Response" where
  "ServeMux_ServeHTTP env mux r c =
     (if RequestURI r = ''*''
      then (c, \<lparr>Status = StatusBadRequest, ContentType = None, Body = []\<rparr>)
      else ServeHTTP env (fst (mux_Handler env mux r)) r c)"

text \<open>
  When a pattern matches a path: a fixed pattern matches the path equal to it, a
  subtree pattern every path that starts with it.
\<close>

definition pattern_matches :: "string \<Rightarrow> string \<Rightarrow> bool" where
  "pattern_matches p path = (path = p \<or> (last p = CHR ''/'' \<and> HasPrefix path p))"

section \<open>The server of \<open>run\<close>\<close>

text \<open>
  The registrations of \<open>run\<close>, in its order: the version path and the health path,
  then \<open>/assets/\<close> and \<open>/\<close>.
\<close>

definition routes_paths :: "Config \<Rightarrow> ServeMux option" where
  "routes_paths cfg =
     (case Handle NewServeMux (VersionPath cfg) VersionInfoH of
        None \<Rightarrow> None
      | Some sm \<Rightarrow> Handle sm (HealthPath cfg) healthzH)"

definition routes_fixed :: "ServeMux \<Rightarrow> ServeMux option" where
  "routes_fixed sm =
     (case Handle sm ''/assets/'' assetsH of
        None \<Rightarrow> None
      | Some sm \<Rightarrow> Handle sm ''/'' rootH)"

definition routes :: "Config \<Rightarrow> ServeMux option" where
  "routes cfg = (case routes_paths cfg of None \<Rightarrow> None | Some sm \<Rightarrow> routes_fixed sm)"

text \<open>
  \<open>srv.Handler\<close> is \<open>sessionManager.LoadAndSave(sm)\<close>; with
  \<open>DisableGeneralOptionsHandler: false\<close> the server itself answers \<open>OPTIONS *\<close>.
\<close>

definition serve :: "Env \<Rightarrow> ServeMux \<Rightarrow> Request \<Rightarrow> Server \<Rightarrow> Server \<times> Response" where
  "serve env mux r srv =
     (if RequestURI r = ''*'' \<and> Method r = ''OPTIONS''
      then (srv, \<lparr>Status = StatusOK, ContentType = None, Body = []\<rparr>)
      else LoadAndSave (ServeMux_ServeHTTP env mux) r srv)"

text \<open>
  What the client receives. In reply to a HEAD request \<open>net/http\<close> sends the status
  and the headers and drops the bytes that the handler writes.
\<close>

definition sent :: "Request \<Rightarrow> Response \<Rightarrow> Response" where
  "sent r resp = (if Method r = ''HEAD'' then resp\<lparr>Body := []\<rparr> else resp)"

text \<open>Requests handled one after the other.\<close>

definition serve_all :: "Env \<Rightarrow> ServeMux \<Rightarrow> Request list \<Rightarrow> Server \<Rightarrow> Server" where
  "serve_all env mux rs srv = foldl (\<lambda>s r. fst (serve env mux r s)) srv rs"

definition root_all :: "Env \<Rightarrow> Request list \<Rightarrow> Server \<Rightarrow> Server" where
  "root_all env rs srv = foldl (\<lambda>s r. fst (LoadAndSave (root env) r s)) srv rs"

section \<open>The life of the process\<close>

text \<open>
  What \<open>run\<close> gets from outside: the outcome of \<open>conf.Parse\<close> (the configuration, the
  help text with \<open>ErrHelpWanted\<close>, or another error), of \<open>conf.String\<close>, of \<open>fs.Sub\<close>, of
  \<open>srv.ListenAndServe\<close> (an error other than \<open>ErrServerClosed\<close>, which here comes before
  any signal) and of \<open>srv.Shutdown\<close>. A run whose listener is bound is followed up to
  the signal that ends it.
\<close>

datatype ParseResult = Parsed Config | ErrHelpWanted string | ParseError string

record Boot =
  conf_Parse :: ParseResult
  conf_String :: "string + string"
  fs_Sub :: "string option"
  srv_ListenAndServe :: "string option"
  srv_Shutdown :: "string option"

text \<open>
  What the process does that can be seen: lines on standard output, log records
  (message and, for errors, the error), and the call of \<open>srv.Shutdown\<close> with the
  timeout of its context.
\<close>

datatype Event =
  Println string | LogInfo string | LogError string string | Shutdown Duration

text \<open>\<open>run\<close> returns \<open>nil\<close> or an error, or the process panics.\<close>

datatype Result = Return "string option" | Panic

text \<open>
  \<open>run\<close>. The deferred \<open>log.Info("service stopped")\<close> runs when \<open>run\<close> returns and when a
  registration panics; the panic of the goroutine that listens ends the process at
  once.
\<close>

definition run :: "Boot \<Rightarrow> Event list \<times> Result" where
  "run b =
     (case conf_Parse b of
        ErrHelpWanted help \<Rightarrow> ([Println help], Return None)
      | ParseError e \<Rightarrow> ([], Return (Some (''parsing config: '' @ e)))
      | Parsed cfg \<Rightarrow>
          (case conf_String b of
             Inl e \<Rightarrow> ([], Return (Some (''config: '' @ e)))
           | Inr cfgStr \<Rightarrow>
               (let started = [LogInfo ''starting service...''];
                    stopped = [LogInfo ''service stopped'']
                in case routes_paths cfg of
                     None \<Rightarrow> (started @ stopped, Panic)
                   | Some sm \<Rightarrow>
                       (case fs_Sub b of
                          Some e \<Rightarrow> (started @ stopped, Return (Some (''assets: '' @ e)))
                        | None \<Rightarrow>
                            (case routes_fixed sm of
                               None \<Rightarrow> (started @ stopped, Panic)
                             | Some sm \<Rightarrow>
                                 (case srv_ListenAndServe b of
                                    Some zerr \<Rightarrow>
                                      (started @ [LogError ''listen: %v'' zerr], Panic)
                                  | None \<Rightarrow>
                                      (started
                                       @ [LogInfo ''shutting down the service...'',
                                          Shutdown Minute]
                                       @ (case srv_Shutdown b of
                                            Some err \<Rightarrow> [LogError ''server Shutdown Failed'' err]
                                          | None \<Rightarrow> [])
                                       @ stopped,
                                       Return None)))))))"

text \<open>
  \<open>main\<close>: the events and the exit status of the process. An error of \<open>run\<close> is logged
  and \<open>os.Exit(1)\<close> follows; a Go program that panics exits with status 2.
\<close>

definition main :: "Boot \<Rightarrow> Event list \<times> nat" where
  "main b =
     (case run b of
        (evs, Return None) \<Rightarrow> (evs, 0)
      | (evs, Return (Some err)) \<Rightarrow> (evs @ [LogError ''error'' err], 1)
      | (evs, Panic) \<Rightarrow> (evs, 2))"

section \<open>Concrete inputs\<close>

text \<open>
  A page that renders each counter as a tally, and stand-ins for the other
  collaborators; a request on the default address; the router and a start of the
  process under the default configuration.
\<close>

definition example_env :: Env where
  "example_env =
     \<lparr>page = (\<lambda>g u. ''global '' @ replicate (unat g) CHR ''|''
                     @ '' user '' @ replicate (unat u) CHR ''|''),
      VersionInfo = (\<lambda>r. \<lparr>Status = 200, ContentType = None, Body = ''hot-templ web service''\<rparr>),
      FileServer = (\<lambda>r. Error ''404 page not found'' 404),
      Redirect = (\<lambda>url code r. \<lparr>Status = code, ContentType = None, Body = []\<rparr>),
      stripHostPort = takeWhile (\<lambda>c. c \<noteq> CHR '':'')\<rparr>"

definition example_request :: "string \<Rightarrow> string \<Rightarrow> Values \<Rightarrow> Values \<Rightarrow> string \<Rightarrow> Request" where
  "example_request meth path query form sid =
     \<lparr>Method = meth, RequestURI = path, ReqHost = ''127.0.0.1:8080'', URL_Host = [],
      URL_Path = path, URL_Query = query, URL_QueryErr = False,
      Body_Form = form, Body_FormErr = False, Session = sid\<rparr>"

definition default_mux :: ServeMux where
  "default_mux =
     \<lparr>m = [''/version'' \<mapsto> VersionInfoH, ''/healthz'' \<mapsto> healthzH,
           ''/assets/'' \<mapsto> assetsH, ''/'' \<mapsto> rootH],
      es = [(''/assets/'', assetsH), (''/'', rootH)],
      hosts = False\<rparr>"

definition example_boot :: Boot where
  "example_boot =
     \<lparr>conf_Parse = Parsed default_cfg, conf_String = Inr ''--port=8080'',
      fs_Sub = None, srv_ListenAndServe = None, srv_Shutdown = None\<rparr>"

text \<open>
  A configuration whose health path is not in canonical form (\<open>--health-path=/a//b\<close>),
  and its router.
\<close>

definition double_slash_cfg :: Config where
  "double_slash_cfg = default_cfg\<lparr>HealthPath := ''/a//b''\<rparr>"

definition double_slash_mux :: ServeMux where
  "double_slash_mux =
     \<lparr>m = [''/version'' \<mapsto> VersionInfoH, ''/a//b'' \<mapsto> healthzH,
           ''/assets/'' \<mapsto> assetsH, ''/'' \<mapsto> rootH],
      es = [(''/assets/'', assetsH), (''/'', rootH)],
      hosts = False\<rparr>"

section \<open>The root handler\<close>

lemma root_POST:
  "Method r = ''POST'' \<Longrightarrow>
   root env r (g, sd) =
     (let Form = fst (ParseForm r);
          g' = (if Has Form ''global'' then g\<lparr>Count := Count g + 1\<rparr> else g);
          sd' = (if Has Form ''user'' then Put sd key (GetInt sd key + 1) else sd)
      in ((g', sd'),
          \<lparr>Status = StatusOK, ContentType = None, Body = page env (Count g') (GetInt sd' key)\<rparr>))"
  by (simp add: root_def Let_def split_def)

lemma root_GET:
  "Method r = ''GET'' \<Longrightarrow>
   root env r (g, sd) =
     ((g, sd), \<lparr>Status = StatusOK, ContentType = None, Body = page env (Count g) (GetInt sd key)\<rparr>)"
  by (simp add: root_def Let_def)

lemma root_other:
  "Method r \<noteq> ''GET'' \<Longrightarrow> Method r \<noteq> ''POST'' \<Longrightarrow>
   root env r (g, sd) =
     ((g, sd), Error (StatusText StatusMethodNotAllowed) StatusMethodNotAllowed)"
  by (simp add: root_def)

lemma GetInt_upd: "GetInt (sd(k \<mapsto> v)) k = v"
  by (simp add: GetInt_def)

lemma GetInt_empty: "GetInt Map.empty k = 0"
  by (simp add: GetInt_def)

text \<open>
  C1. A POST handled by the root handler: the global counter is incremented by one
  exactly when the parsed form has the key \<open>global\<close>; the counter of the request's
  session is read (zero when absent), incremented by one and stored back exactly when
  the form has the key \<open>user\<close>; both may happen in one request, with neither key
  nothing changes; no other session is touched; the page is rendered with status 200
  from the values after the increments.
\<close>

theorem post_increments:
  assumes "Method r = ''POST''"
  shows "(let Form = fst (ParseForm r);
              (srv', resp) = LoadAndSave (root env) r srv
          in Count (global srv') =
               (if Has Form ''global'' then Count (global srv) + 1 else Count (global srv))
           \<and> (Count (global srv') \<noteq> Count (global srv)) = Has Form ''global''
           \<and> sessions srv' (Session r) =
               (if Has Form ''user''
                then (sessions srv (Session r))(key \<mapsto> userCount srv (Session r) + 1)
                else sessions srv (Session r))
           \<and> userCount srv' (Session r) =
               (if Has Form ''user'' then userCount srv (Session r) + 1
                else userCount srv (Session r))
           \<and> (userCount srv' (Session r) \<noteq> userCount srv (Session r)) = Has Form ''user''
           \<and> (\<forall>sid. sid \<noteq> Session r \<longrightarrow> sessions srv' sid = sessions srv sid)
           \<and> resp = \<lparr>Status = 200, ContentType = None,
                      Body = page env (Count (global srv')) (userCount srv' (Session r))\<rparr>)"
  using assms
  by (simp add: LoadAndSave_def root_POST Let_def userCount_def GetInt_upd Put_def StatusOK_def)

theorem post_increments_witness:
  "Method (example_request ''POST'' ''/'' [] [(''global'', ''1''), (''user'', [])] ''alice'') = ''POST''
   \<and> Count (global (fst (LoadAndSave (root example_env)
        (example_request ''POST'' ''/'' [] [(''global'', ''1''), (''user'', [])] ''alice'') initial))) = 1
   \<and> userCount (fst (LoadAndSave (root example_env)
        (example_request ''POST'' ''/'' [] [(''global'', ''1''), (''user'', [])] ''alice'') initial)) ''alice'' = 1
   \<and> snd (LoadAndSave (root example_env)
        (example_request ''POST'' ''/'' [] [(''global'', ''1''), (''user'', [])] ''alice'') initial)
       = \<lparr>Status = 200, ContentType = None, Body = ''global | user |''\<rparr>"
proof -
  have h: "Method (example_request ''POST'' ''/'' [] [(''global'', ''1''), (''user'', [])] ''alice'') = ''POST''"
    by (simp add: example_request_def)
  show ?thesis
    using h post_increments [OF h, of example_env initial]
    by (simp add: Let_def split_def LoadAndSave_def root_def ParseForm_def copyValues_def
        Has_def Put_def GetInt_def StatusOK_def example_request_def example_env_def
        initial_def userCount_def)
qed

lemma Has_append: "Has (a @ b) k = (Has a k \<or> Has b k)"
  by (auto simp: Has_def)

lemma ParseForm_POST:
  "Method r = ''POST'' \<Longrightarrow> fst (ParseForm r) = Body_Form r @ URL_Query r"
  by (simp add: ParseForm_def copyValues_def Let_def)

lemma Server_same: "\<lparr>global = global srv, sessions = (sessions srv)(sid := sessions srv sid)\<rparr> = srv"
  by simp

text \<open>
  C6 (amended). A request handled by the root handler whose method is neither GET nor
  POST leaves the global counter and every session as they were. The handler answers
  with status 405 and writes the plain-text message \<open>Method Not Allowed\<close>; the client
  receives that message as the body, except in reply to HEAD, which has the status
  and the headers and no body.
\<close>

theorem other_method_405:
  assumes "Method r \<noteq> ''GET''" and "Method r \<noteq> ''POST''"
  shows "LoadAndSave (root env) r srv =
           (srv, \<lparr>Status = 405, ContentType = Some ''text/plain; charset=utf-8'',
                  Body = ''Method Not Allowed'' @ [CHR 0x0A]\<rparr>)
       \<and> sent r (snd (LoadAndSave (root env) r srv)) =
           \<lparr>Status = 405, ContentType = Some ''text/plain; charset=utf-8'',
            Body = (if Method r = ''HEAD'' then [] else ''Method Not Allowed'' @ [CHR 0x0A])\<rparr>"
proof -
  have a: "LoadAndSave (root env) r srv =
           (srv, \<lparr>Status = 405, ContentType = Some ''text/plain; charset=utf-8'',
                  Body = ''Method Not Allowed'' @ [CHR 0x0A]\<rparr>)"
    using assms
    by (simp add: LoadAndSave_def root_other Error_def StatusText_def StatusMethodNotAllowed_def)
  show ?thesis
    unfolding a by (simp add: sent_def)
qed

theorem other_method_405_witness:
  "LoadAndSave (root example_env)
         (example_request ''DELETE'' ''/'' [] [(''global'', ''1'')] ''alice'') initial =
       (initial, \<lparr>Status = 405, ContentType = Some ''text/plain; charset=utf-8'',
                  Body = ''Method Not Allowed'' @ [CHR 0x0A]\<rparr>)
   \<and> sent (example_request ''DELETE'' ''/'' [] [(''global'', ''1'')] ''alice'')
         (snd (LoadAndSave (root example_env)
            (example_request ''DELETE'' ''/'' [] [(''global'', ''1'')] ''alice'') initial)) =
       \<lparr>Status = 405, ContentType = Some ''text/plain; charset=utf-8'',
        Body = ''Method Not Allowed'' @ [CHR 0x0A]\<rparr>"
proof -
  have g: "Method (example_request ''DELETE'' ''/'' [] [(''global'', ''1'')] ''alice'') \<noteq> ''GET''"
    and p: "Method (example_request ''DELETE'' ''/'' [] [(''global'', ''1'')] ''alice'') \<noteq> ''POST''"
    and h: "Method (example_request ''DELETE'' ''/'' [] [(''global'', ''1'')] ''alice'') \<noteq> ''HEAD''"
    by (simp_all add: example_request_def)
  show ?thesis
    using other_method_405 [OF g p, of example_env initial] h by (simp add: sent_def)
qed

text \<open>
  The claim C6 gives every such reply a status message body. The reply to \<open>HEAD /\<close>
  has status 405 and no body.
\<close>

theorem head_405_no_body:
  "Method (example_request ''HEAD'' ''/'' [] [] ''alice'') \<noteq> ''GET''
   \<and> Method (example_request ''HEAD'' ''/'' [] [] ''alice'') \<noteq> ''POST''
   \<and> sent (example_request ''HEAD'' ''/'' [] [] ''alice'')
         (snd (LoadAndSave (root example_env)
            (example_request ''HEAD'' ''/'' [] [] ''alice'') initial)) =
       \<lparr>Status = 405, ContentType = Some ''text/plain; charset=utf-8'', Body = []\<rparr>"
proof -
  have g: "Method (example_request ''HEAD'' ''/'' [] [] ''alice'') \<noteq> ''GET''"
    and p: "Method (example_request ''HEAD'' ''/'' [] [] ''alice'') \<noteq> ''POST''"
    and h: "Method (example_request ''HEAD'' ''/'' [] [] ''alice'') = ''HEAD''"
    by (simp_all add: example_request_def)
  have "snd (LoadAndSave (root example_env) (example_request ''HEAD'' ''/'' [] [] ''alice'') initial)
      = Error (StatusText StatusMethodNotAllowed) StatusMethodNotAllowed"
    using g p by (simp add: LoadAndSave_def root_other)
  then show ?thesis
    using g p h by (simp add: sent_def Error_def StatusMethodNotAllowed_def)
qed

text \<open>
  C9. For a POST the parsed form holds the keys of the body and the keys of the URL
  query. So a \<open>global\<close> (or \<open>user\<close>) key in the query increments the counter whatever
  the body is: empty, or not parseable (the error of \<open>ParseForm\<close> is ignored).
\<close>

theorem query_fields_count:
  assumes "Method r = ''POST''"
  shows "(\<forall>k. Has (fst (ParseForm r)) k = (Has (Body_Form r) k \<or> Has (URL_Query r) k))
       \<and> (Has (URL_Query r) ''global'' \<longrightarrow>
            Count (global (fst (LoadAndSave (root env) r srv))) = Count (global srv) + 1)
       \<and> (Has (URL_Query r) ''user'' \<longrightarrow>
            userCount (fst (LoadAndSave (root env) r srv)) (Session r)
              = userCount srv (Session r) + 1)"
  using assms
  by (simp add: LoadAndSave_def root_POST Let_def userCount_def GetInt_upd Put_def
      ParseForm_POST Has_append)

theorem query_fields_count_witness:
  "Method ((example_request ''POST'' ''/'' [(''global'', []), (''user'', [])] [] ''alice'')
             \<lparr>Body_FormErr := True\<rparr>) = ''POST''
   \<and> Count (global (fst (LoadAndSave (root example_env)
        ((example_request ''POST'' ''/'' [(''global'', []), (''user'', [])] [] ''alice'')
           \<lparr>Body_FormErr := True\<rparr>) initial))) = 1
   \<and> userCount (fst (LoadAndSave (root example_env)
        ((example_request ''POST'' ''/'' [(''global'', []), (''user'', [])] [] ''alice'')
           \<lparr>Body_FormErr := True\<rparr>) initial)) ''alice'' = 1"
proof -
  have h: "Method ((example_request ''POST'' ''/'' [(''global'', []), (''user'', [])] [] ''alice'')
             \<lparr>Body_FormErr := True\<rparr>) = ''POST''"
    by (simp add: example_request_def)
  show ?thesis
    using h query_fields_count [OF h, of example_env initial]
    by (simp add: Has_def example_request_def initial_def userCount_def GetInt_empty)
qed


section \<open>Sequences of requests\<close>

lemma sint_of_nat_small: "n < 2 ^ 63 \<Longrightarrow> sint (of_nat n :: 64 word) = int n"
  by (simp add: sint_uint signed_take_bit_int_eq_self take_bit_nat_eq_self unsigned_of_nat)

lemma root_step_Count:
  "Count (global (fst (LoadAndSave (root env) r srv))) =
     (if Method r = ''POST'' \<and> Has (fst (ParseForm r)) ''global''
      then Count (global srv) + 1 else Count (global srv))"
proof (cases "Method r = ''POST''")
  case True
  then show ?thesis by (simp add: LoadAndSave_def root_POST Let_def)
next
  case False
  then show ?thesis
    by (cases "Method r = ''GET''") (simp_all add: LoadAndSave_def root_GET root_other)
qed

lemma root_step_sessions:
  "sessions (fst (LoadAndSave (root env) r srv)) sid =
     (if Method r = ''POST'' \<and> Has (fst (ParseForm r)) ''user'' \<and> Session r = sid
      then (sessions srv sid)(key \<mapsto> userCount srv sid + 1) else sessions srv sid)"
proof (cases "Method r = ''POST''")
  case True
  then show ?thesis by (simp add: LoadAndSave_def root_POST Let_def Put_def userCount_def)
next
  case False
  then show ?thesis
    by (cases "Method r = ''GET''") (simp_all add: LoadAndSave_def root_GET root_other)
qed

lemma root_step_userCount:
  "userCount (fst (LoadAndSave (root env) r srv)) sid =
     (if Method r = ''POST'' \<and> Has (fst (ParseForm r)) ''user'' \<and> Session r = sid
      then userCount srv sid + 1 else userCount srv sid)"
  by (simp add: userCount_def [of "fst _"] root_step_sessions GetInt_upd)
    (simp add: userCount_def)

lemma root_all_snoc:
  "root_all env (rs @ [r]) srv = fst (LoadAndSave (root env) r (root_all env rs srv))"
  by (simp add: root_all_def)

lemma root_all_Nil: "root_all env [] srv = srv"
  by (simp add: root_all_def)

lemma root_all_Count:
  "\<forall>r\<in>set rs. Method r = ''POST'' \<and> Has (fst (ParseForm r)) ''global'' \<Longrightarrow>
   Count (global (root_all env rs srv)) = Count (global srv) + of_nat (length rs)"
  by (induction rs rule: rev_induct) (simp_all add: root_all_Nil root_all_snoc root_step_Count)

lemma root_all_userCount:
  "\<forall>r\<in>set rs. Method r = ''POST'' \<and> Has (fst (ParseForm r)) ''user'' \<and> Session r = sid \<Longrightarrow>
   userCount (root_all env rs srv) sid = userCount srv sid + of_nat (length rs)"
  by (induction rs rule: rev_induct) (simp_all add: root_all_Nil root_all_snoc root_step_userCount)

lemma root_all_sessions_frame:
  "\<forall>r\<in>set rs. \<not> (Method r = ''POST'' \<and> Has (fst (ParseForm r)) ''user'' \<and> Session r = sid) \<Longrightarrow>
   sessions (root_all env rs srv) sid = sessions srv sid"
proof (induction rs rule: rev_induct)
  case Nil
  show ?case by (simp add: root_all_Nil)
next
  case (snoc r rs)
  then have "sessions (root_all env rs srv) sid = sessions srv sid" by simp
  moreover have "\<not> (Method r = ''POST'' \<and> Has (fst (ParseForm r)) ''user'' \<and> Session r = sid)"
    using snoc.prems by simp
  ultimately show ?case
    by (simp only: root_all_snoc root_step_sessions if_False)
qed

lemma initial_Count: "Count (global initial) = 0"
  by (simp add: initial_def)

lemma initial_userCount: "userCount initial sid = 0"
  by (simp add: initial_def userCount_def GetInt_empty)

text \<open>
  C4 (amended). After \<open>N\<close> POST requests with the key \<open>global\<close>, handled one after the
  other by the root handler from the start of the process, the global counter is \<open>N\<close>
  in Go's wrapping int arithmetic; it reads as \<open>N\<close> when \<open>N\<close> is below \<open>2^63\<close>.
\<close>

theorem global_counts_posts:
  assumes "\<forall>r\<in>set rs. Method r = ''POST'' \<and> Has (fst (ParseForm r)) ''global''"
  shows "Count (global (root_all env rs initial)) = of_nat (length rs)
       \<and> (length rs < 2 ^ 63 \<longrightarrow>
            sint (Count (global (root_all env rs initial))) = int (length rs))"
  using root_all_Count [OF assms, of env initial]
  by (simp add: initial_Count sint_of_nat_small)

text \<open>
  C3 (amended). After \<open>N\<close> POST requests with the key \<open>user\<close>, all of one session and
  handled one after the other by the root handler from the start of the process, the
  counter of that session is \<open>N\<close> in Go's wrapping int arithmetic, and reads as \<open>N\<close>
  when \<open>N\<close> is below \<open>2^63\<close>. These requests leave the data of every other session as
  it was, and a session's counter reads 0 as long as no POST with \<open>user\<close> of that
  session was handled.
\<close>

theorem session_counts_posts:
  assumes "\<forall>r\<in>set rs. Method r = ''POST'' \<and> Has (fst (ParseForm r)) ''user'' \<and> Session r = sid"
  shows "userCount (root_all env rs initial) sid = of_nat (length rs)
       \<and> (length rs < 2 ^ 63 \<longrightarrow>
            sint (userCount (root_all env rs initial) sid) = int (length rs))
       \<and> (\<forall>sid'. sid' \<noteq> sid \<longrightarrow> sessions (root_all env rs srv) sid' = sessions srv sid')
       \<and> (\<forall>sid' qs.
            (\<forall>q\<in>set qs. \<not> (Method q = ''POST'' \<and> Has (fst (ParseForm q)) ''user''
                              \<and> Session q = sid'))
            \<longrightarrow> userCount (root_all env qs initial) sid' = 0)"
proof -
  have a: "userCount (root_all env rs initial) sid = of_nat (length rs)"
    using root_all_userCount [OF assms, of env initial] by (simp add: initial_userCount)
  have b: "length rs < 2 ^ 63 \<longrightarrow>
            sint (userCount (root_all env rs initial) sid) = int (length rs)"
    using a by (simp add: sint_of_nat_small)
  have c: "\<forall>sid'. sid' \<noteq> sid \<longrightarrow> sessions (root_all env rs srv) sid' = sessions srv sid'"
  proof (intro allI impI)
    fix sid' assume "sid' \<noteq> sid"
    with assms have "\<forall>r\<in>set rs. \<not> (Method r = ''POST'' \<and> Has (fst (ParseForm r)) ''user''
        \<and> Session r = sid')"
      by auto
    then show "sessions (root_all env rs srv) sid' = sessions srv sid'"
      by (rule root_all_sessions_frame)
  qed
  have d: "\<forall>sid' qs.
            (\<forall>q\<in>set qs. \<not> (Method q = ''POST'' \<and> Has (fst (ParseForm q)) ''user''
                              \<and> Session q = sid'))
            \<longrightarrow> userCount (root_all env qs initial) sid' = 0"
  proof (intro allI impI)
    fix sid' qs
    assume "\<forall>q\<in>set qs. \<not> (Method q = ''POST'' \<and> Has (fst (ParseForm q)) ''user''
                              \<and> Session q = sid')"
    then have "sessions (root_all env qs initial) sid' = sessions initial sid'"
      by (rule root_all_sessions_frame)
    then show "userCount (root_all env qs initial) sid' = 0"
      using initial_userCount [of sid'] by (simp add: userCount_def)
  qed
  from a b c d show ?thesis by blast
qed


lemma sint_MaxInt: "sint MaxInt = 2 ^ 63 - 1"
  by (simp add: MaxInt_def)

lemma sint_inc:
  fixes c :: go_int
  assumes "c \<noteq> MaxInt"
  shows "sint (c + 1) = sint c + 1"
proof -
  have "sint c < 2 ^ 63" using sint_lt [of c] by simp
  moreover have "sint c \<noteq> 2 ^ 63 - 1"
  proof
    assume "sint c = 2 ^ 63 - 1"
    then have "sint c = sint MaxInt" by (simp add: sint_MaxInt)
    then have "c = MaxInt" by (rule signed_word_eqI)
    with assms show False by simp
  qed
  moreover have "- (2 ^ 63) \<le> sint c" using sint_ge [of c] by simp
  ultimately show ?thesis
    by (simp add: sint_word_add [of c 1] signed_take_bit_int_eq_self)
qed

lemma replicate_global_posts:
  assumes "Method r = ''POST''" and "Has (fst (ParseForm r)) ''global''"
  shows "Count (global (root_all env (replicate n r) initial)) = of_nat n"
proof -
  have "\<forall>q\<in>set (replicate n r). Method q = ''POST'' \<and> Has (fst (ParseForm q)) ''global''"
    using assms by simp
  from root_all_Count [OF this, of env initial] show ?thesis
    by (simp add: initial_Count)
qed

lemma replicate_user_posts:
  assumes "Method r = ''POST''" and "Has (fst (ParseForm r)) ''user''"
  shows "userCount (root_all env (replicate n r) initial) (Session r) = of_nat n"
proof -
  have "\<forall>q\<in>set (replicate n r). Method q = ''POST'' \<and> Has (fst (ParseForm q)) ''user''
          \<and> Session q = Session r"
    using assms by simp
  from root_all_userCount [OF this, of env initial] show ?thesis
    by (simp add: initial_userCount)
qed

lemma example_global_post:
  "Method (example_request ''POST'' ''/'' [] [(''global'', ''1'')] sid) = ''POST''
   \<and> Has (fst (ParseForm (example_request ''POST'' ''/'' [] [(''global'', ''1'')] sid))) ''global''"
  by (simp add: example_request_def ParseForm_def copyValues_def Has_def)

lemma example_user_post:
  "Method (example_request ''POST'' ''/'' [] [(''user'', ''1'')] sid) = ''POST''
   \<and> Has (fst (ParseForm (example_request ''POST'' ''/'' [] [(''user'', ''1'')] sid))) ''user''
   \<and> Session (example_request ''POST'' ''/'' [] [(''user'', ''1'')] sid) = sid"
  by (simp add: example_request_def ParseForm_def copyValues_def Has_def)

theorem global_counts_posts_witness:
  "sint (Count (global (root_all example_env
      [example_request ''POST'' ''/'' [] [(''global'', ''1'')] ''alice'',
       example_request ''POST'' ''/'' [] [(''global'', ''1'')] ''bob'',
       example_request ''POST'' ''/'' [] [(''global'', ''1'')] ''alice''] initial))) = 3"
proof -
  have h: "\<forall>r\<in>set [example_request ''POST'' ''/'' [] [(''global'', ''1'')] ''alice'',
       example_request ''POST'' ''/'' [] [(''global'', ''1'')] ''bob'',
       example_request ''POST'' ''/'' [] [(''global'', ''1'')] ''alice''].
         Method r = ''POST'' \<and> Has (fst (ParseForm r)) ''global''"
    by (simp add: example_global_post)
  show ?thesis
    using global_counts_posts [OF h, of example_env] by simp
qed

text \<open>
  The claim C4 for every \<open>N\<close> fails at \<open>N = 2^63\<close>: the int has wrapped around.
\<close>

theorem global_counts_posts_overflow:
  "sint (Count (global (root_all example_env
      (replicate (2 ^ 63) (example_request ''POST'' ''/'' [] [(''global'', ''1'')] ''alice''))
      initial))) = - (2 ^ 63)"
  by (simp add: replicate_global_posts example_global_post)

theorem session_counts_posts_witness:
  "sint (userCount (root_all example_env
      [example_request ''POST'' ''/'' [] [(''user'', ''1'')] ''alice'',
       example_request ''POST'' ''/'' [] [(''user'', ''1'')] ''alice''] initial) ''alice'') = 2
   \<and> userCount (root_all example_env
      [example_request ''POST'' ''/'' [] [(''user'', ''1'')] ''alice'',
       example_request ''POST'' ''/'' [] [(''user'', ''1'')] ''alice''] initial) ''bob'' = 0"
proof -
  have h: "\<forall>r\<in>set [example_request ''POST'' ''/'' [] [(''user'', ''1'')] ''alice'',
       example_request ''POST'' ''/'' [] [(''user'', ''1'')] ''alice''].
         Method r = ''POST'' \<and> Has (fst (ParseForm r)) ''user'' \<and> Session r = ''alice''"
    by (simp add: example_user_post)
  have n: "\<forall>q\<in>set [example_request ''POST'' ''/'' [] [(''user'', ''1'')] ''alice'',
       example_request ''POST'' ''/'' [] [(''user'', ''1'')] ''alice''].
         \<not> (Method q = ''POST'' \<and> Has (fst (ParseForm q)) ''user'' \<and> Session q = ''bob'')"
    by (simp add: example_user_post)
  show ?thesis
    using session_counts_posts [OF h, of example_env initial] n by simp
qed

text \<open>
  The claim C3 for every \<open>N\<close> fails at \<open>N = 2^63\<close> in the same way.
\<close>

theorem session_counts_posts_overflow:
  "sint (userCount (root_all example_env
      (replicate (2 ^ 63) (example_request ''POST'' ''/'' [] [(''user'', ''1'')] ''alice''))
      initial) ''alice'') = - (2 ^ 63)"
proof -
  have "userCount (root_all example_env
      (replicate (2 ^ 63) (example_request ''POST'' ''/'' [] [(''user'', ''1'')] ''alice''))
      initial) (Session (example_request ''POST'' ''/'' [] [(''user'', ''1'')] ''alice''))
      = of_nat (2 ^ 63)"
    by (rule replicate_user_posts) (simp_all add: example_user_post)
  then show ?thesis by (simp add: example_user_post)
qed

section \<open>Every request of the server\<close>

lemma LoadAndSave_const:
  "(\<And>c. fst (next r c) = c) \<Longrightarrow> fst (LoadAndSave next r srv) = srv"
  by (simp add: LoadAndSave_def split_def)

lemma ServeHTTP_cases:
  "h \<noteq> rootH \<Longrightarrow> fst (ServeHTTP env h r c) = c"
  by (cases h) simp_all

lemma serve_state:
  "fst (serve env mux r srv) = srv
   \<or> fst (serve env mux r srv) = fst (LoadAndSave (root env) r srv)"
proof (cases "RequestURI r = ''*''")
  case True
  then have "\<And>c. fst (ServeMux_ServeHTTP env mux r c) = c"
    by (simp add: ServeMux_ServeHTTP_def)
  then have "fst (LoadAndSave (ServeMux_ServeHTTP env mux) r srv) = srv"
    by (rule LoadAndSave_const)
  then show ?thesis by (simp add: serve_def)
next
  case False
  show ?thesis
  proof (cases "fst (mux_Handler env mux r) = rootH")
    case True
    with False have "ServeMux_ServeHTTP env mux r = root env r"
      by (simp add: ServeMux_ServeHTTP_def fun_eq_iff)
    then have "LoadAndSave (ServeMux_ServeHTTP env mux) r srv = LoadAndSave (root env) r srv"
      by (simp add: LoadAndSave_def)
    with False show ?thesis by (simp add: serve_def)
  next
    case h: False
    with False have "\<And>c. fst (ServeMux_ServeHTTP env mux r c) = c"
      by (simp add: ServeMux_ServeHTTP_def ServeHTTP_cases)
    then have "fst (LoadAndSave (ServeMux_ServeHTTP env mux) r srv) = srv"
      by (rule LoadAndSave_const)
    with False show ?thesis by (simp add: serve_def)
  qed
qed

lemma sint_inc_mono:
  fixes c :: go_int
  assumes "0 \<le> sint c" and "c \<noteq> MaxInt"
  shows "0 \<le> sint (c + 1) \<and> sint c \<le> sint (c + 1)"
  using assms by (simp add: sint_inc)

text \<open>
  C5 (amended). Every request to the server, whatever the router does with it, leaves
  the global counter and each session counter as it was or adds one to it, in Go's
  wrapping int arithmetic. So a counter that is non-negative and not the largest int
  is non-negative afterwards and has not decreased.
\<close>

theorem counters_step:
  "(Count (global (fst (serve env mux r srv))) = Count (global srv)
      \<or> Count (global (fst (serve env mux r srv))) = Count (global srv) + 1)
   \<and> (\<forall>sid. userCount (fst (serve env mux r srv)) sid = userCount srv sid
          \<or> userCount (fst (serve env mux r srv)) sid = userCount srv sid + 1)
   \<and> (0 \<le> sint (Count (global srv)) \<and> Count (global srv) \<noteq> MaxInt \<longrightarrow>
         0 \<le> sint (Count (global (fst (serve env mux r srv))))
         \<and> sint (Count (global srv)) \<le> sint (Count (global (fst (serve env mux r srv)))))
   \<and> (\<forall>sid. 0 \<le> sint (userCount srv sid) \<and> userCount srv sid \<noteq> MaxInt \<longrightarrow>
         0 \<le> sint (userCount (fst (serve env mux r srv)) sid)
         \<and> sint (userCount srv sid) \<le> sint (userCount (fst (serve env mux r srv)) sid))"
proof -
  have g: "Count (global (fst (serve env mux r srv))) = Count (global srv)
      \<or> Count (global (fst (serve env mux r srv))) = Count (global srv) + 1"
    using serve_state [of env mux r srv] by (auto simp: root_step_Count)
  have u: "userCount (fst (serve env mux r srv)) sid = userCount srv sid
          \<or> userCount (fst (serve env mux r srv)) sid = userCount srv sid + 1" for sid
    using serve_state [of env mux r srv] by (auto simp: root_step_userCount)
  have g': "0 \<le> sint (Count (global srv)) \<and> Count (global srv) \<noteq> MaxInt \<longrightarrow>
         0 \<le> sint (Count (global (fst (serve env mux r srv))))
         \<and> sint (Count (global srv)) \<le> sint (Count (global (fst (serve env mux r srv))))"
    using g sint_inc_mono [of "Count (global srv)"] by auto
  have u': "0 \<le> sint (userCount srv sid) \<and> userCount srv sid \<noteq> MaxInt \<longrightarrow>
         0 \<le> sint (userCount (fst (serve env mux r srv)) sid)
         \<and> sint (userCount srv sid) \<le> sint (userCount (fst (serve env mux r srv)) sid)" for sid
    using u [of sid] sint_inc_mono [of "userCount srv sid"] by auto
  from g u g' u' show ?thesis by blast
qed

lemma default_mux_root:
  "mux_Handler env default_mux (example_request meth ''/'' q f sid) = (rootH, ''/'')"
  by (simp add: mux_Handler_def default_mux_def example_request_def shouldRedirectRLocked_def
      handler_def mux_match_def cleanPath_def Clean_def Let_def)

lemma serve_default_root:
  "serve env default_mux (example_request meth ''/'' q f sid) srv
     = LoadAndSave (root env) (example_request meth ''/'' q f sid) srv"
proof -
  have "RequestURI (example_request meth ''/'' q f sid) \<noteq> ''*''"
    by (simp add: example_request_def)
  then show ?thesis
    by (simp add: serve_def LoadAndSave_def ServeMux_ServeHTTP_def default_mux_root)
qed

lemma serve_all_replicate_root:
  "serve_all env default_mux (replicate n (example_request meth ''/'' q f sid)) srv
     = root_all env (replicate n (example_request meth ''/'' q f sid)) srv"
  by (induction n arbitrary: srv) (simp_all add: serve_all_def root_all_def serve_default_root)

lemma example_both_post:
  "Method (example_request ''POST'' ''/'' [] [(''global'', ''1''), (''user'', ''1'')] sid) = ''POST''
   \<and> Has (fst (ParseForm (example_request ''POST'' ''/'' [] [(''global'', ''1''), (''user'', ''1'')] sid))) ''global''
   \<and> Has (fst (ParseForm (example_request ''POST'' ''/'' [] [(''global'', ''1''), (''user'', ''1'')] sid))) ''user''
   \<and> Session (example_request ''POST'' ''/'' [] [(''global'', ''1''), (''user'', ''1'')] sid) = sid"
  by (simp add: example_request_def ParseForm_def copyValues_def Has_def)

theorem counters_step_witness:
  "0 \<le> sint (Count (global initial)) \<and> Count (global initial) \<noteq> MaxInt
   \<and> 0 \<le> sint (userCount initial ''alice'') \<and> userCount initial ''alice'' \<noteq> MaxInt
   \<and> sint (Count (global (fst (serve example_env default_mux
        (example_request ''POST'' ''/'' [] [(''global'', ''1''), (''user'', ''1'')] ''alice'')
        initial)))) = 1
   \<and> sint (userCount (fst (serve example_env default_mux
        (example_request ''POST'' ''/'' [] [(''global'', ''1''), (''user'', ''1'')] ''alice'')
        initial)) ''alice'') = 1"
proof -
  have a: "Count (global (fst (serve example_env default_mux
        (example_request ''POST'' ''/'' [] [(''global'', ''1''), (''user'', ''1'')] ''alice'')
        initial))) = 1"
    by (simp add: serve_default_root root_step_Count example_both_post initial_Count)
  have b: "userCount (fst (serve example_env default_mux
        (example_request ''POST'' ''/'' [] [(''global'', ''1''), (''user'', ''1'')] ''alice'')
        initial)) ''alice'' = 1"
    by (simp add: serve_default_root root_step_userCount example_both_post initial_userCount)
  show ?thesis
    using counters_step [of example_env default_mux
      "example_request ''POST'' ''/'' [] [(''global'', ''1''), (''user'', ''1'')] ''alice''" initial]
    by (simp add: a b initial_Count initial_userCount MaxInt_def)
qed

text \<open>
  The claim C5 without the bound fails: \<open>2^63 - 1\<close> POST requests with \<open>global\<close> bring
  the counter to the largest int, and the next one makes it negative.
\<close>

theorem counters_step_overflow:
  "sint (Count (global (serve_all example_env default_mux
      (replicate (2 ^ 63 - 1) (example_request ''POST'' ''/'' [] [(''global'', ''1'')] ''alice''))
      initial))) = 2 ^ 63 - 1
   \<and> sint (Count (global (serve_all example_env default_mux
      (replicate (2 ^ 63) (example_request ''POST'' ''/'' [] [(''global'', ''1'')] ''alice''))
      initial))) = - (2 ^ 63)"
  by (simp add: serve_all_replicate_root replicate_global_posts example_global_post)


section \<open>The router\<close>

lemma set_appendSorted: "set (appendSorted xs e) = insert e (set xs)"
  by (induction xs) auto

lemma Handle_Some:
  "Handle mux p h = Some mux' \<Longrightarrow>
     p \<noteq> [] \<and> m mux p = None \<and> m mux' = (m mux)(p \<mapsto> h)
     \<and> set (es mux') = (if last p = CHR ''/'' then insert (p, h) (set (es mux)) else set (es mux))
     \<and> hosts mux' = (hosts mux \<or> hd p \<noteq> CHR ''/'')"
  by (auto simp: Handle_def set_appendSorted split: if_splits)

lemma routes_steps:
  assumes "routes cfg = Some mux"
  obtains m1 m2 m3 where
    "Handle NewServeMux (VersionPath cfg) VersionInfoH = Some m1"
    "Handle m1 (HealthPath cfg) healthzH = Some m2"
    "Handle m2 ''/assets/'' assetsH = Some m3"
    "Handle m3 ''/'' rootH = Some mux"
proof -
  from assms obtain m2 where a: "routes_paths cfg = Some m2" and b: "routes_fixed m2 = Some mux"
    by (simp add: routes_def split: option.splits)
  from a obtain m1 where c: "Handle NewServeMux (VersionPath cfg) VersionInfoH = Some m1"
    and d: "Handle m1 (HealthPath cfg) healthzH = Some m2"
    by (simp add: routes_paths_def split: option.splits)
  from b obtain m3 where e: "Handle m2 ''/assets/'' assetsH = Some m3"
    and f: "Handle m3 ''/'' rootH = Some mux"
    by (simp add: routes_fixed_def split: option.splits)
  from c d e f that show ?thesis by blast
qed

lemma routes_m:
  assumes "routes cfg = Some mux"
  shows "m mux = [VersionPath cfg \<mapsto> VersionInfoH, HealthPath cfg \<mapsto> healthzH,
                  ''/assets/'' \<mapsto> assetsH, ''/'' \<mapsto> rootH]"
proof -
  from assms obtain m1 m2 m3 where
    h1: "Handle NewServeMux (VersionPath cfg) VersionInfoH = Some m1" and
    h2: "Handle m1 (HealthPath cfg) healthzH = Some m2" and
    h3: "Handle m2 ''/assets/'' assetsH = Some m3" and
    h4: "Handle m3 ''/'' rootH = Some mux"
    by (rule routes_steps)
  have "m m1 = [VersionPath cfg \<mapsto> VersionInfoH]"
    using Handle_Some [OF h1] by (simp add: NewServeMux_def)
  then have "m m2 = [VersionPath cfg \<mapsto> VersionInfoH, HealthPath cfg \<mapsto> healthzH]"
    using Handle_Some [OF h2] by simp
  then have "m m3 = [VersionPath cfg \<mapsto> VersionInfoH, HealthPath cfg \<mapsto> healthzH,
                     ''/assets/'' \<mapsto> assetsH]"
    using Handle_Some [OF h3] by simp
  then show ?thesis
    using Handle_Some [OF h4] by simp
qed

lemma routes_distinct:
  assumes "routes cfg = Some mux"
  shows "HealthPath cfg \<noteq> VersionPath cfg
     \<and> HealthPath cfg \<noteq> ''/assets/'' \<and> HealthPath cfg \<noteq> ''/''"
proof -
  from assms obtain m1 m2 m3 where
    h1: "Handle NewServeMux (VersionPath cfg) VersionInfoH = Some m1" and
    h2: "Handle m1 (HealthPath cfg) healthzH = Some m2" and
    h3: "Handle m2 ''/assets/'' assetsH = Some m3" and
    h4: "Handle m3 ''/'' rootH = Some mux"
    by (rule routes_steps)
  have m1: "m m1 = [VersionPath cfg \<mapsto> VersionInfoH]"
    using Handle_Some [OF h1] by (simp add: NewServeMux_def)
  then have m2: "m m2 = [VersionPath cfg \<mapsto> VersionInfoH, HealthPath cfg \<mapsto> healthzH]"
    using Handle_Some [OF h2] by simp
  then have m3: "m m3 = [VersionPath cfg \<mapsto> VersionInfoH, HealthPath cfg \<mapsto> healthzH,
                     ''/assets/'' \<mapsto> assetsH]"
    using Handle_Some [OF h3] by simp
  have "m m1 (HealthPath cfg) = None" using Handle_Some [OF h2] by simp
  then have c: "HealthPath cfg \<noteq> VersionPath cfg"
    unfolding m1 by (metis fun_upd_same option.distinct(1))
  have "m m2 ''/assets/'' = None" using Handle_Some [OF h3] by simp
  then have d: "HealthPath cfg \<noteq> ''/assets/''"
    unfolding m2 by (metis fun_upd_apply option.distinct(1))
  have "m m3 ''/'' = None" using Handle_Some [OF h4] by simp
  then have e: "HealthPath cfg \<noteq> ''/''"
    unfolding m3 by (metis fun_upd_apply option.distinct(1))
  from c d e show ?thesis by blast
qed

lemma routes_hosts:
  assumes "routes cfg = Some mux"
  shows "hosts mux = (hd (VersionPath cfg) \<noteq> CHR ''/'' \<or> hd (HealthPath cfg) \<noteq> CHR ''/'')"
proof -
  from assms obtain m1 m2 m3 where
    h1: "Handle NewServeMux (VersionPath cfg) VersionInfoH = Some m1" and
    h2: "Handle m1 (HealthPath cfg) healthzH = Some m2" and
    h3: "Handle m2 ''/assets/'' assetsH = Some m3" and
    h4: "Handle m3 ''/'' rootH = Some mux"
    by (rule routes_steps)
  have "hosts m1 = (hd (VersionPath cfg) \<noteq> CHR ''/'')"
    using Handle_Some [OF h1] by (simp add: NewServeMux_def)
  then have "hosts m2 = (hd (VersionPath cfg) \<noteq> CHR ''/'' \<or> hd (HealthPath cfg) \<noteq> CHR ''/'')"
    using Handle_Some [OF h2] by simp
  then have "hosts m3 = (hd (VersionPath cfg) \<noteq> CHR ''/'' \<or> hd (HealthPath cfg) \<noteq> CHR ''/'')"
    using Handle_Some [OF h3] by simp
  then show ?thesis
    using Handle_Some [OF h4] by simp
qed

lemma routes_es:
  assumes "routes cfg = Some mux"
  shows "set (es mux) \<subseteq> {(VersionPath cfg, VersionInfoH), (HealthPath cfg, healthzH),
                           (''/assets/'', assetsH), (''/'', rootH)}
       \<and> (\<forall>e \<in> set (es mux). last (fst e) = CHR ''/'')
       \<and> (''/'', rootH) \<in> set (es mux)"
proof -
  from assms obtain m1 m2 m3 where
    h1: "Handle NewServeMux (VersionPath cfg) VersionInfoH = Some m1" and
    h2: "Handle m1 (HealthPath cfg) healthzH = Some m2" and
    h3: "Handle m2 ''/assets/'' assetsH = Some m3" and
    h4: "Handle m3 ''/'' rootH = Some mux"
    by (rule routes_steps)
  let ?P = "\<lambda>mx S. set (es mx) \<subseteq> S \<and> (\<forall>e \<in> set (es mx). last (fst e) = CHR ''/'')"
  have s1: "?P m1 {(VersionPath cfg, VersionInfoH)}"
    using Handle_Some [OF h1] by (simp add: NewServeMux_def split: if_splits)
  have s2: "?P m2 {(VersionPath cfg, VersionInfoH), (HealthPath cfg, healthzH)}"
    using Handle_Some [OF h2] s1 by (cases "last (HealthPath cfg) = CHR ''/''") auto
  have s3: "?P m3 {(VersionPath cfg, VersionInfoH), (HealthPath cfg, healthzH),
                   (''/assets/'', assetsH)}"
    using Handle_Some [OF h3] s2 by auto
  have s4: "?P mux {(VersionPath cfg, VersionInfoH), (HealthPath cfg, healthzH),
                   (''/assets/'', assetsH), (''/'', rootH)}"
    using Handle_Some [OF h4] s3 by auto
  have "(''/'', rootH) \<in> set (es mux)"
    using Handle_Some [OF h4] by simp
  with s4 show ?thesis by blast
qed

lemma routes_default: "routes default_cfg = Some default_mux"
  by (simp add: routes_def routes_paths_def routes_fixed_def Handle_def NewServeMux_def
      default_cfg_def default_mux_def)

lemma handler_health:
  assumes r: "routes cfg = Some mux"
    and v: "hd (VersionPath cfg) = CHR ''/''" and h: "hd (HealthPath cfg) = CHR ''/''"
  shows "handler mux host (HealthPath cfg) = (healthzH, HealthPath cfg)"
proof -
  have "hosts mux = False" using routes_hosts [OF r] v h by simp
  moreover have "m mux (HealthPath cfg) = Some healthzH"
    using routes_distinct [OF r] by (simp add: routes_m [OF r])
  ultimately show ?thesis by (simp add: handler_def mux_match_def)
qed

lemma Handler_health:
  assumes r: "routes cfg = Some mux"
    and v: "hd (VersionPath cfg) = CHR ''/''" and h: "hd (HealthPath cfg) = CHR ''/''"
    and c: "cleanPath (HealthPath cfg) = HealthPath cfg"
    and p: "URL_Path q = HealthPath cfg"
  shows "mux_Handler env mux q = (healthzH, HealthPath cfg)"
proof -
  have "m mux (HealthPath cfg) = Some healthzH"
    using routes_distinct [OF r] by (simp add: routes_m [OF r])
  then have "\<not> shouldRedirectRLocked mux host (HealthPath cfg)" for host
    by (simp add: shouldRedirectRLocked_def)
  then show ?thesis
    using c p handler_health [OF r v h] by (simp add: mux_Handler_def Let_def)
qed

text \<open>
  C7 (amended). The server is up (the registrations of \<open>run\<close> did not panic) with a
  version path and a health path that start with a slash, the health path in
  canonical form. Then every request to the health path, whatever its method, host,
  query, body or session, leaves the global counter and all sessions as before, and
  the handler answers with status 200 and writes \<open>ok\<close>; the client receives \<open>ok\<close> as
  the body, except in reply to HEAD, which has no body.
\<close>

theorem health_ok:
  assumes "routes cfg = Some mux"
    and "hd (VersionPath cfg) = CHR ''/''" and "hd (HealthPath cfg) = CHR ''/''"
    and "cleanPath (HealthPath cfg) = HealthPath cfg"
    and "URL_Path r = HealthPath cfg" and "RequestURI r \<noteq> ''*''"
  shows "serve env mux r srv = (srv, \<lparr>Status = 200, ContentType = None, Body = ''ok''\<rparr>)
       \<and> sent r (snd (serve env mux r srv)) =
           \<lparr>Status = 200, ContentType = None,
            Body = (if Method r = ''HEAD'' then [] else ''ok'')\<rparr>"
proof -
  have a: "serve env mux r srv = (srv, \<lparr>Status = 200, ContentType = None, Body = ''ok''\<rparr>)"
    using assms(6) Handler_health [OF assms(1-5), of env]
    by (simp add: serve_def LoadAndSave_def ServeMux_ServeHTTP_def healthz_def StatusOK_def)
  show ?thesis
    unfolding a by (simp add: sent_def)
qed

theorem health_ok_witness:
  "serve example_env default_mux
     (example_request ''POST'' ''/healthz'' [] [(''global'', ''1''), (''user'', ''1'')] ''alice'')
     initial = (initial, \<lparr>Status = 200, ContentType = None, Body = ''ok''\<rparr>)
   \<and> sent (example_request ''POST'' ''/healthz'' [] [(''global'', ''1''), (''user'', ''1'')] ''alice'')
       (snd (serve example_env default_mux
         (example_request ''POST'' ''/healthz'' [] [(''global'', ''1''), (''user'', ''1'')] ''alice'')
         initial)) = \<lparr>Status = 200, ContentType = None, Body = ''ok''\<rparr>
   \<and> fst (serve example_env default_mux
     (example_request ''HEAD'' ''/healthz'' [] [] ''bob'') initial) = initial
   \<and> sent (example_request ''HEAD'' ''/healthz'' [] [] ''bob'')
       (snd (serve example_env default_mux
         (example_request ''HEAD'' ''/healthz'' [] [] ''bob'') initial))
       = \<lparr>Status = 200, ContentType = None, Body = []\<rparr>"
proof -
  have v: "hd (VersionPath default_cfg) = CHR ''/''" and h: "hd (HealthPath default_cfg) = CHR ''/''"
    by (simp_all add: default_cfg_def)
  have c: "cleanPath (HealthPath default_cfg) = HealthPath default_cfg"
    by code_simp
  have p1: "URL_Path (example_request ''POST'' ''/healthz'' [] [(''global'', ''1''), (''user'', ''1'')] ''alice'')
      = HealthPath default_cfg"
    and p2: "URL_Path (example_request ''HEAD'' ''/healthz'' [] [] ''bob'') = HealthPath default_cfg"
    by (simp_all add: example_request_def default_cfg_def)
  have u1: "RequestURI (example_request ''POST'' ''/healthz'' [] [(''global'', ''1''), (''user'', ''1'')] ''alice'')
      \<noteq> ''*''"
    and u2: "RequestURI (example_request ''HEAD'' ''/healthz'' [] [] ''bob'') \<noteq> ''*''"
    by (simp_all add: example_request_def)
  have m1: "Method (example_request ''POST'' ''/healthz'' [] [(''global'', ''1''), (''user'', ''1'')] ''alice'')
      \<noteq> ''HEAD''"
    and m2: "Method (example_request ''HEAD'' ''/healthz'' [] [] ''bob'') = ''HEAD''"
    by (simp_all add: example_request_def)
  show ?thesis
    using health_ok [OF routes_default v h c p1 u1, of example_env initial]
      health_ok [OF routes_default v h c p2 u2, of example_env initial] m1 m2
    by (simp add: sent_def)
qed

text \<open>
  The claim C7 for every configured health path and every method fails twice. With
  the health path \<open>/a//b\<close> the router answers \<open>GET /a//b\<close> with a redirect to \<open>/a/b\<close>,
  which the root handler serves. Under the default configuration the reply to
  \<open>HEAD /healthz\<close> has no body.
\<close>

theorem health_not_ok:
  "routes double_slash_cfg = Some double_slash_mux
   \<and> URL_Path (example_request ''GET'' ''/a//b'' [] [] ''alice'') = HealthPath double_slash_cfg
   \<and> mux_Handler example_env double_slash_mux (example_request ''GET'' ''/a//b'' [] [] ''alice'')
       = (RedirectHandler ''/a/b'' 301, ''/'')
   \<and> URL_Path (example_request ''HEAD'' ''/healthz'' [] [] ''alice'') = HealthPath default_cfg
   \<and> Body (sent (example_request ''HEAD'' ''/healthz'' [] [] ''alice'')
       (snd (serve example_env default_mux
         (example_request ''HEAD'' ''/healthz'' [] [] ''alice'') initial))) = []"
proof -
  have a: "routes double_slash_cfg = Some double_slash_mux"
    by (simp add: routes_def routes_paths_def routes_fixed_def Handle_def NewServeMux_def
        default_cfg_def double_slash_cfg_def double_slash_mux_def)
  have b: "URL_Path (example_request ''GET'' ''/a//b'' [] [] ''alice'') = HealthPath double_slash_cfg"
    "URL_Path (example_request ''HEAD'' ''/healthz'' [] [] ''alice'') = HealthPath default_cfg"
    by (simp_all add: example_request_def double_slash_cfg_def default_cfg_def)
  have c: "mux_Handler example_env double_slash_mux (example_request ''GET'' ''/a//b'' [] [] ''alice'')
       = (RedirectHandler ''/a/b'' 301, ''/'')"
    by code_simp
  have d: "Body (sent (example_request ''HEAD'' ''/healthz'' [] [] ''alice'')
       (snd (serve example_env default_mux
         (example_request ''HEAD'' ''/healthz'' [] [] ''alice'') initial))) = []"
    by (simp add: sent_def example_request_def)
  from a b c d show ?thesis by blast
qed

lemma slash_free_append:
  assumes "CHR ''/'' \<notin> set host" and "hd p = CHR ''/''" and "p \<noteq> []" and "host @ rest = p"
  shows "host = []"
proof (rule ccontr)
  assume "host \<noteq> []"
  then have "hd (host @ rest) = hd host" by (rule hd_append2)
  then have "hd host = CHR ''/''" using assms(2,4) by (simp only:)
  moreover have "hd host \<in> set host" using \<open>host \<noteq> []\<close> by (rule hd_in_set)
  ultimately show False using assms(1) by (simp only:)
qed

lemma match_es_first:
  assumes "t \<in> set xs"
    and "\<And>e. e \<in> set xs \<Longrightarrow> HasPrefix path (fst e) \<Longrightarrow> e = t"
    and "HasPrefix path (fst t)"
  shows "match_es xs path = Some (snd t, fst t)"
  using assms
proof (induction xs)
  case Nil
  then show ?case by simp
next
  case (Cons x xs)
  have step: "match_es (x # xs) path =
      (if HasPrefix path (fst x) then Some (snd x, fst x) else match_es xs path)"
    by (cases x) (simp only: match_es.simps fst_conv snd_conv)
  show ?case
  proof (cases "HasPrefix path (fst x)")
    case True
    have "x \<in> set (x # xs)" by (rule list.set_intros(1))
    then have "x = t" using True by (rule Cons.prems(2))
    with True step show ?thesis by (simp only: if_True)
  next
    case False
    with Cons.prems(3) have "x \<noteq> t" by blast
    with Cons.prems(1) have "t \<in> set xs" by (simp only: set_simps insert_iff) blast
    moreover have "\<And>e. e \<in> set xs \<Longrightarrow> HasPrefix path (fst e) \<Longrightarrow> e = t"
      by (rule Cons.prems(2)) (rule list.set_intros(2))
    ultimately have "match_es xs path = Some (snd t, fst t)"
      using Cons.prems(3) by (rule Cons.IH)
    with False step show ?thesis by (simp only: if_False)
  qed
qed

lemma match_es_root:
  assumes "(''/'', rootH) \<in> set xs"
    and "\<And>e. e \<in> set xs \<Longrightarrow> HasPrefix path (fst e) \<Longrightarrow> e = (''/'', rootH)"
    and "HasPrefix path ''/''"
  shows "match_es xs path = Some (rootH, ''/'')"
proof -
  have "HasPrefix path (fst (''/'', rootH))" using assms(3) by (simp only: fst_conv)
  with assms(1,2) have "match_es xs path = Some (snd (''/'', rootH), fst (''/'', rootH))"
    by (rule match_es_first)
  then show ?thesis by (simp only: fst_conv snd_conv)
qed

lemma routes_dom:
  assumes "routes cfg = Some mux"
  shows "(m mux x \<noteq> None) = (x \<in> {VersionPath cfg, HealthPath cfg, ''/assets/'', ''/''})"
proof -
  have "(([a \<mapsto> VersionInfoH, b \<mapsto> healthzH, c \<mapsto> assetsH, d \<mapsto> rootH]) x \<noteq> None)
          = (x \<in> {a, b, c, d})" for a b c d :: string
    by auto
  then show ?thesis by (simp only: routes_m [OF assms])
qed

lemma routes_nonempty:
  assumes "routes cfg = Some mux"
  shows "VersionPath cfg \<noteq> [] \<and> HealthPath cfg \<noteq> []"
proof -
  from assms obtain m1 m2 m3 where
    h1: "Handle NewServeMux (VersionPath cfg) VersionInfoH = Some m1" and
    h2: "Handle m1 (HealthPath cfg) healthzH = Some m2" and
    h3: "Handle m2 ''/assets/'' assetsH = Some m3" and
    h4: "Handle m3 ''/'' rootH = Some mux"
    by (rule routes_steps)
  from Handle_Some [OF h1] Handle_Some [OF h2] show ?thesis by simp
qed

lemma routes_root:
  assumes "routes cfg = Some mux"
  shows "m mux ''/'' = Some rootH"
  by (simp add: routes_m [OF assms])

lemma handler_root:
  assumes r: "routes cfg = Some mux"
    and v: "hd (VersionPath cfg) = CHR ''/''" and h: "hd (HealthPath cfg) = CHR ''/''"
    and rooted: "HasPrefix path ''/''"
    and none: "\<forall>p\<in>{VersionPath cfg, HealthPath cfg, ''/assets/''}. \<not> pattern_matches p path"
  shows "handler mux host path = (rootH, ''/'')"
proof -
  have hs: "hosts mux = False" using routes_hosts [OF r] v h by simp
  have mm: "mux_match mux path = Some (rootH, ''/'')"
  proof (cases "path = ''/''")
    case True
    with routes_root [OF r] show ?thesis by (simp add: mux_match_def)
  next
    case False
    have "\<not> (m mux path \<noteq> None)"
    proof
      assume "m mux path \<noteq> None"
      then have "path \<in> {VersionPath cfg, HealthPath cfg, ''/assets/'', ''/''}"
        by (simp only: routes_dom [OF r])
      with False have "path \<in> {VersionPath cfg, HealthPath cfg, ''/assets/''}" by blast
      with none have "\<not> pattern_matches path path" by blast
      then show False by (simp add: pattern_matches_def)
    qed
    then have none_m: "m mux path = None" by blast
    have es: "set (es mux) \<subseteq> {(VersionPath cfg, VersionInfoH), (HealthPath cfg, healthzH),
                           (''/assets/'', assetsH), (''/'', rootH)}"
      and lasts: "\<forall>e \<in> set (es mux). last (fst e) = CHR ''/''"
      and root_in: "(''/'', rootH) \<in> set (es mux)"
      using routes_es [OF r] by blast+
    have only: "e = (''/'', rootH)" if e: "e \<in> set (es mux)" and pre: "HasPrefix path (fst e)" for e
    proof -
      from lasts e have "last (fst e) = CHR ''/''" by blast
      with pre have pm: "pattern_matches (fst e) path" by (simp add: pattern_matches_def)
      with none have "fst e \<notin> {VersionPath cfg, HealthPath cfg, ''/assets/''}" by blast
      moreover from es e have "e \<in> {(VersionPath cfg, VersionInfoH), (HealthPath cfg, healthzH),
                           (''/assets/'', assetsH), (''/'', rootH)}" by blast
      ultimately show ?thesis by (elim insertE emptyE) (simp_all only: fst_conv insert_iff simp_thms)
    qed
    from root_in only rooted have "match_es (es mux) path = Some (rootH, ''/'')"
      by (rule match_es_root)
    with none_m show ?thesis by (simp add: mux_match_def)
  qed
  with hs show ?thesis by (simp add: handler_def)
qed

lemma no_redirect:
  assumes r: "routes cfg = Some mux"
    and v: "hd (VersionPath cfg) = CHR ''/''" and h: "hd (HealthPath cfg) = CHR ''/''"
    and host: "CHR ''/'' \<notin> set host"
    and sub: "\<forall>p\<in>{VersionPath cfg, HealthPath cfg, ''/assets/''}. path @ ''/'' \<noteq> p"
  shows "\<not> shouldRedirectRLocked mux host path"
proof (cases "path = []")
  case True
  then show ?thesis by (simp add: shouldRedirectRLocked_def)
next
  case False
  then have ne: "path @ ''/'' \<noteq> ''/''" by simp
  have a: "m mux (path @ ''/'') = None"
  proof (rule ccontr)
    assume "m mux (path @ ''/'') \<noteq> None"
    then have "path @ ''/'' \<in> {VersionPath cfg, HealthPath cfg, ''/assets/'', ''/''}"
      by (simp only: routes_dom [OF r])
    with sub ne show False by blast
  qed
  have b: "m mux (host @ path @ ''/'') = None"
  proof (rule ccontr)
    assume "m mux (host @ path @ ''/'') \<noteq> None"
    then have mem: "host @ path @ ''/'' \<in> {VersionPath cfg, HealthPath cfg, ''/assets/'', ''/''}"
      by (simp only: routes_dom [OF r])
    define p where "p = host @ path @ ''/''"
    have pm: "p \<in> {VersionPath cfg, HealthPath cfg, ''/assets/'', ''/''}"
      using mem by (simp only: p_def)
    have hdp: "hd p = CHR ''/''"
      using pm v h by (elim insertE emptyE) simp_all
    have pne: "p \<noteq> []"
      using pm routes_nonempty [OF r] by (elim insertE emptyE) simp_all
    have "host @ (path @ ''/'') = p" by (simp only: p_def)
    with host hdp pne have "host = []" by (rule slash_free_append)
    with mem have "path @ ''/'' \<in> {VersionPath cfg, HealthPath cfg, ''/assets/'', ''/''}"
      by (simp only: append_Nil)
    with sub ne show False by blast
  qed
  from a b show ?thesis by (simp only: shouldRedirectRLocked_def if_False simp_thms if_True split: if_splits)
qed


text \<open>
  C10 (amended). The root handler is registered on \<open>/\<close>. With a version path and a
  health path that start with a slash, a request is dispatched to the root handler
  when its path starts with a slash and is in canonical form (CONNECT requests are
  not canonicalised), is matched by none of the three other patterns and is not one
  of them without its final slash, the request target is not \<open>*\<close> and the host has no
  slash. A GET among these is answered with status 200 and the counter page.
\<close>

theorem catch_all_root:
  assumes "routes cfg = Some mux"
    and "hd (VersionPath cfg) = CHR ''/''" and "hd (HealthPath cfg) = CHR ''/''"
    and "RequestURI r \<noteq> ''*''"
    and "HasPrefix (URL_Path r) ''/''"
    and "Method r \<noteq> ''CONNECT'' \<longrightarrow> cleanPath (URL_Path r) = URL_Path r"
    and "CHR ''/'' \<notin> set (URL_Host r)" and "CHR ''/'' \<notin> set (stripHostPort env (ReqHost r))"
    and "\<forall>p\<in>{VersionPath cfg, HealthPath cfg, ''/assets/''}.
           \<not> pattern_matches p (URL_Path r) \<and> URL_Path r @ ''/'' \<noteq> p"
  shows "mux_Handler env mux r = (rootH, ''/'')
       \<and> serve env mux r srv = LoadAndSave (root env) r srv
       \<and> (Method r = ''GET'' \<longrightarrow>
            serve env mux r srv =
              (srv, \<lparr>Status = 200, ContentType = None,
                     Body = page env (Count (global srv)) (userCount srv (Session r))\<rparr>))"
proof -
  have none: "\<forall>p\<in>{VersionPath cfg, HealthPath cfg, ''/assets/''}. \<not> pattern_matches p (URL_Path r)"
    and sub: "\<forall>p\<in>{VersionPath cfg, HealthPath cfg, ''/assets/''}. URL_Path r @ ''/'' \<noteq> p"
    using assms(9) by blast+
  have hr: "handler mux host (URL_Path r) = (rootH, ''/'')" for host
    by (rule handler_root [OF assms(1-3) assms(5) none])
  have n1: "\<not> shouldRedirectRLocked mux (URL_Host r) (URL_Path r)"
    by (rule no_redirect [OF assms(1-3) assms(7) sub])
  have n2: "\<not> shouldRedirectRLocked mux (stripHostPort env (ReqHost r)) (URL_Path r)"
    by (rule no_redirect [OF assms(1-3) assms(8) sub])
  have d: "mux_Handler env mux r = (rootH, ''/'')"
  proof (cases "Method r = ''CONNECT''")
    case True
    with n1 hr show ?thesis by (simp add: mux_Handler_def)
  next
    case False
    with assms(6) have "cleanPath (URL_Path r) = URL_Path r" by blast
    with False n2 hr show ?thesis by (simp add: mux_Handler_def Let_def)
  qed
  have s: "serve env mux r srv = LoadAndSave (root env) r srv"
    using assms(4) d by (simp add: serve_def LoadAndSave_def ServeMux_ServeHTTP_def)
  have g: "Method r = ''GET'' \<longrightarrow>
            serve env mux r srv =
              (srv, \<lparr>Status = 200, ContentType = None,
                     Body = page env (Count (global srv)) (userCount srv (Session r))\<rparr>)"
    unfolding s by (simp add: LoadAndSave_def root_GET userCount_def StatusOK_def)
  from d s g show ?thesis by blast
qed

theorem catch_all_root_witness:
  "mux_Handler example_env default_mux (example_request ''GET'' ''/foo/bar'' [] [] ''alice'')
     = (rootH, ''/'')
   \<and> serve example_env default_mux (example_request ''GET'' ''/foo/bar'' [] [] ''alice'') initial
     = (initial, \<lparr>Status = 200, ContentType = None, Body = ''global  user ''\<rparr>)"
proof -
  have v: "hd (VersionPath default_cfg) = CHR ''/''" and h: "hd (HealthPath default_cfg) = CHR ''/''"
    by (simp_all add: default_cfg_def)
  have u: "RequestURI (example_request ''GET'' ''/foo/bar'' [] [] ''alice'') \<noteq> ''*''"
    by (simp add: example_request_def)
  have p: "HasPrefix (URL_Path (example_request ''GET'' ''/foo/bar'' [] [] ''alice'')) ''/''"
    by (simp add: example_request_def HasPrefix_def)
  have c: "Method (example_request ''GET'' ''/foo/bar'' [] [] ''alice'') \<noteq> ''CONNECT'' \<longrightarrow>
      cleanPath (URL_Path (example_request ''GET'' ''/foo/bar'' [] [] ''alice''))
        = URL_Path (example_request ''GET'' ''/foo/bar'' [] [] ''alice'')"
    by code_simp
  have h1: "CHR ''/'' \<notin> set (URL_Host (example_request ''GET'' ''/foo/bar'' [] [] ''alice''))"
    by (simp add: example_request_def)
  have h2: "CHR ''/'' \<notin> set (stripHostPort example_env
      (ReqHost (example_request ''GET'' ''/foo/bar'' [] [] ''alice'')))"
    by (simp add: example_request_def example_env_def)
  have n: "\<forall>p\<in>{VersionPath default_cfg, HealthPath default_cfg, ''/assets/''}.
      \<not> pattern_matches p (URL_Path (example_request ''GET'' ''/foo/bar'' [] [] ''alice''))
      \<and> URL_Path (example_request ''GET'' ''/foo/bar'' [] [] ''alice'') @ ''/'' \<noteq> p"
    by (simp add: example_request_def default_cfg_def pattern_matches_def HasPrefix_def)
  have g: "Method (example_request ''GET'' ''/foo/bar'' [] [] ''alice'') = ''GET''"
    by (simp add: example_request_def)
  have b: "page example_env (Count (global initial))
      (userCount initial (Session (example_request ''GET'' ''/foo/bar'' [] [] ''alice'')))
      = ''global  user ''"
    by (simp add: example_env_def initial_Count initial_userCount)
  show ?thesis
    using catch_all_root [OF routes_default v h u p c h1 h2 n, of initial] g b
    by metis
qed

text \<open>
  The claim C10 for every path that none of the other patterns matches fails: under
  the default configuration \<open>/assets\<close> is redirected to \<open>/assets/\<close>, and \<open>/foo//bar\<close> to
  \<open>/foo/bar\<close>, with status 301.
\<close>

theorem catch_all_root_redirects:
  "routes default_cfg = Some default_mux
   \<and> \<not> pattern_matches (VersionPath default_cfg) ''/assets''
   \<and> \<not> pattern_matches (HealthPath default_cfg) ''/assets''
   \<and> \<not> pattern_matches ''/assets/'' ''/assets''
   \<and> mux_Handler example_env default_mux (example_request ''GET'' ''/assets'' [] [] ''alice'')
       = (RedirectHandler ''/assets/'' 301, ''/assets/'')
   \<and> \<not> pattern_matches (VersionPath default_cfg) ''/foo//bar''
   \<and> \<not> pattern_matches (HealthPath default_cfg) ''/foo//bar''
   \<and> \<not> pattern_matches ''/assets/'' ''/foo//bar''
   \<and> mux_Handler example_env default_mux (example_request ''GET'' ''/foo//bar'' [] [] ''alice'')
       = (RedirectHandler ''/foo/bar'' 301, ''/'')"
proof -
  have a: "mux_Handler example_env default_mux (example_request ''GET'' ''/assets'' [] [] ''alice'')
       = (RedirectHandler ''/assets/'' 301, ''/assets/'')"
    by code_simp
  have b: "mux_Handler example_env default_mux (example_request ''GET'' ''/foo//bar'' [] [] ''alice'')
       = (RedirectHandler ''/foo/bar'' 301, ''/'')"
    by code_simp
  have c: "\<not> pattern_matches (VersionPath default_cfg) ''/assets''
   \<and> \<not> pattern_matches (HealthPath default_cfg) ''/assets''
   \<and> \<not> pattern_matches ''/assets/'' ''/assets''
   \<and> \<not> pattern_matches (VersionPath default_cfg) ''/foo//bar''
   \<and> \<not> pattern_matches (HealthPath default_cfg) ''/foo//bar''
   \<and> \<not> pattern_matches ''/assets/'' ''/foo//bar''"
    by (simp add: default_cfg_def pattern_matches_def HasPrefix_def)
  from a b c routes_default show ?thesis by blast
qed

section \<open>Exit status and shutdown\<close>

lemma run_help: "conf_Parse b = ErrHelpWanted help \<Longrightarrow> run b = ([Println help], Return None)"
  by (simp add: run_def)

lemma run_parse_error:
  "conf_Parse b = ParseError e \<Longrightarrow> run b = ([], Return (Some (''parsing config: '' @ e)))"
  by (simp add: run_def)

lemma run_string_error:
  "conf_Parse b = Parsed cfg \<Longrightarrow> conf_String b = Inl e \<Longrightarrow>
   run b = ([], Return (Some (''config: '' @ e)))"
  by (simp add: run_def)

lemma run_sub_error:
  "conf_Parse b = Parsed cfg \<Longrightarrow> conf_String b = Inr s \<Longrightarrow> routes_paths cfg = Some sm \<Longrightarrow>
   fs_Sub b = Some e \<Longrightarrow>
   run b = ([LogInfo ''starting service...'', LogInfo ''service stopped''],
            Return (Some (''assets: '' @ e)))"
  by (simp add: run_def)

lemma run_listen_error:
  "conf_Parse b = Parsed cfg \<Longrightarrow> conf_String b = Inr s \<Longrightarrow> routes cfg = Some mux \<Longrightarrow>
   fs_Sub b = None \<Longrightarrow> srv_ListenAndServe b = Some zerr \<Longrightarrow>
   run b = ([LogInfo ''starting service...'', LogError ''listen: %v'' zerr], Panic)"
  by (auto simp: run_def routes_def split: option.splits)

lemma run_clean:
  "conf_Parse b = Parsed cfg \<Longrightarrow> conf_String b = Inr s \<Longrightarrow> routes cfg = Some mux \<Longrightarrow>
   fs_Sub b = None \<Longrightarrow> srv_ListenAndServe b = None \<Longrightarrow>
   run b = ([LogInfo ''starting service...'', LogInfo ''shutting down the service...'',
             Shutdown Minute]
            @ (case srv_Shutdown b of Some err \<Rightarrow> [LogError ''server Shutdown Failed'' err]
               | None \<Rightarrow> [])
            @ [LogInfo ''service stopped''], Return None)"
  by (auto simp: run_def routes_def split: option.splits)

text \<open>
  C8 (amended). The exit status is 0 on a help request, which prints the usage and
  does nothing else, and on a clean shutdown; it is 1, after the error is logged,
  when \<open>run\<close> returns an error: from parsing the configuration, from rendering it or
  from the assets. A listener that cannot bind is logged and then panics: the
  process ends with status 2.
\<close>

theorem exit_codes:
  "(\<forall>help. conf_Parse b = ErrHelpWanted help \<longrightarrow> main b = ([Println help], 0))
   \<and> (\<forall>e. conf_Parse b = ParseError e \<longrightarrow>
          main b = ([LogError ''error'' (''parsing config: '' @ e)], 1))
   \<and> (\<forall>cfg e. conf_Parse b = Parsed cfg \<and> conf_String b = Inl e \<longrightarrow>
          main b = ([LogError ''error'' (''config: '' @ e)], 1))
   \<and> (\<forall>cfg s sm e. conf_Parse b = Parsed cfg \<and> conf_String b = Inr s
          \<and> routes_paths cfg = Some sm \<and> fs_Sub b = Some e \<longrightarrow>
          main b = ([LogInfo ''starting service...'', LogInfo ''service stopped'',
                     LogError ''error'' (''assets: '' @ e)], 1))
   \<and> (\<forall>cfg s mux. conf_Parse b = Parsed cfg \<and> conf_String b = Inr s
          \<and> routes cfg = Some mux \<and> fs_Sub b = None \<and> srv_ListenAndServe b = None \<longrightarrow>
          snd (main b) = 0 \<and> last (fst (main b)) = LogInfo ''service stopped'')
   \<and> (\<forall>cfg s mux zerr. conf_Parse b = Parsed cfg \<and> conf_String b = Inr s
          \<and> routes cfg = Some mux \<and> fs_Sub b = None \<and> srv_ListenAndServe b = Some zerr \<longrightarrow>
          main b = ([LogInfo ''starting service...'', LogError ''listen: %v'' zerr], 2))"
proof -
  have a: "\<forall>help. conf_Parse b = ErrHelpWanted help \<longrightarrow> main b = ([Println help], 0)"
    by (simp add: main_def run_help)
  have c: "\<forall>e. conf_Parse b = ParseError e \<longrightarrow>
          main b = ([LogError ''error'' (''parsing config: '' @ e)], 1)"
    by (simp add: main_def run_parse_error)
  have d: "\<forall>cfg e. conf_Parse b = Parsed cfg \<and> conf_String b = Inl e \<longrightarrow>
          main b = ([LogError ''error'' (''config: '' @ e)], 1)"
    by (simp add: main_def run_string_error)
  have e: "\<forall>cfg s sm e. conf_Parse b = Parsed cfg \<and> conf_String b = Inr s
          \<and> routes_paths cfg = Some sm \<and> fs_Sub b = Some e \<longrightarrow>
          main b = ([LogInfo ''starting service...'', LogInfo ''service stopped'',
                     LogError ''error'' (''assets: '' @ e)], 1)"
    by (auto simp: main_def run_sub_error)
  have f: "\<forall>cfg s mux. conf_Parse b = Parsed cfg \<and> conf_String b = Inr s
          \<and> routes cfg = Some mux \<and> fs_Sub b = None \<and> srv_ListenAndServe b = None \<longrightarrow>
          snd (main b) = 0 \<and> last (fst (main b)) = LogInfo ''service stopped''"
    by (auto simp: main_def run_clean)
  have g: "\<forall>cfg s mux zerr. conf_Parse b = Parsed cfg \<and> conf_String b = Inr s
          \<and> routes cfg = Some mux \<and> fs_Sub b = None \<and> srv_ListenAndServe b = Some zerr \<longrightarrow>
          main b = ([LogInfo ''starting service...'', LogError ''listen: %v'' zerr], 2)"
    by (auto simp: main_def run_listen_error)
  from a c d e f g show ?thesis by blast
qed


lemma routes_paths_ShutdownTimeout:
  "routes_paths (cfg\<lparr>ShutdownTimeout := d\<rparr>) = routes_paths cfg"
  by (simp add: routes_paths_def split: option.splits)

lemma routes_ShutdownTimeout:
  "routes (cfg\<lparr>ShutdownTimeout := d\<rparr>) = routes cfg"
  by (simp add: routes_def routes_paths_ShutdownTimeout)

theorem exit_codes_witness:
  "main (example_boot\<lparr>conf_Parse := ErrHelpWanted ''Usage: hot-templ [options]''\<rparr>)
     = ([Println ''Usage: hot-templ [options]''], 0)
   \<and> main (example_boot\<lparr>conf_Parse := ParseError ''flag provided but not defined''\<rparr>)
     = ([LogError ''error'' ''parsing config: flag provided but not defined''], 1)
   \<and> snd (main example_boot) = 0
   \<and> main (example_boot\<lparr>srv_ListenAndServe := Some ''bind: address already in use''\<rparr>)
     = ([LogInfo ''starting service...'', LogError ''listen: %v'' ''bind: address already in use''], 2)"
  using exit_codes [of "example_boot\<lparr>conf_Parse := ErrHelpWanted ''Usage: hot-templ [options]''\<rparr>"]
    exit_codes [of "example_boot\<lparr>conf_Parse := ParseError ''flag provided but not defined''\<rparr>"]
    exit_codes [of example_boot]
    exit_codes [of "example_boot\<lparr>srv_ListenAndServe := Some ''bind: address already in use''\<rparr>"]
  by (simp add: example_boot_def routes_default)

text \<open>
  The claim C8 gives status 1 to a listener bind failure; the process ends with 2.
\<close>

theorem bind_failure_exit_2:
  "main (example_boot\<lparr>srv_ListenAndServe := Some ''bind: address already in use''\<rparr>)
     = ([LogInfo ''starting service...'', LogError ''listen: %v'' ''bind: address already in use''], 2)"
  by (simp add: main_def run_listen_error [OF _ _ routes_default] example_boot_def)

text \<open>
  C2. The claim bounds the shutdown wait by the configured \<open>ShutdownTimeout\<close>. The
  code does not read that field: under the default configuration, with its
  \<open>ShutdownTimeout\<close> of 5 seconds, \<open>srv.Shutdown\<close> gets a context of one minute, and
  the run is the same for every other value of the field.
\<close>

theorem shutdown_timeout_fixed:
  "main example_boot =
     ([LogInfo ''starting service...'', LogInfo ''shutting down the service...'',
       Shutdown Minute, LogInfo ''service stopped''], 0)
   \<and> sint (ShutdownTimeout default_cfg) = 5000000000
   \<and> sint Minute = 60000000000
   \<and> (\<forall>d. main (example_boot\<lparr>conf_Parse := Parsed (default_cfg\<lparr>ShutdownTimeout := d\<rparr>)\<rparr>)
          = main example_boot)"
proof -
  have a: "main example_boot =
     ([LogInfo ''starting service...'', LogInfo ''shutting down the service...'',
       Shutdown Minute, LogInfo ''service stopped''], 0)"
    by (simp add: main_def run_clean [OF _ _ routes_default] example_boot_def)
  have b: "sint (ShutdownTimeout default_cfg) = 5000000000" "sint Minute = 60000000000"
    by (simp_all add: default_cfg_def Minute_def Second_def)
  have r: "routes (default_cfg\<lparr>ShutdownTimeout := d\<rparr>) = Some default_mux" for d
    by (simp add: routes_ShutdownTimeout routes_default)
  have c: "main (example_boot\<lparr>conf_Parse := Parsed (default_cfg\<lparr>ShutdownTimeout := d\<rparr>)\<rparr>)
          = main example_boot" for d
    unfolding a by (simp add: main_def run_clean [OF _ _ r] example_boot_def)
  from a b c show ?thesis by simp
qed

end
